theory Spec2Isabelle
  imports Complex_Main "HOL-Library.Word"
begin

section \<open>JavaScript values used by the pipeline\<close>

text \<open>
  Strings are HOL strings: one \<open>char\<close> per code unit, so \<open>length\<close> and \<open>take\<close> are
  JavaScript's \<open>length\<close> and \<open>substring(0, n)\<close>.  A thrown value is an \<open>exn\<close>: an
  \<open>Error\<close> object with its message, or something that is not an \<open>Error\<close> instance (the
  handlers of the source test \<open>error instanceof Error\<close>).
\<close>

datatype exn = Error string | NonError

type_synonym byte = "8 word"

definition nl :: string where
  "nl = [CHR 0x0A]"

text \<open>\<open>s.split(c)\<close> for a one-character separator: never empty, \<open>''''\<close> gives \<open>['''']\<close>.\<close>

fun split_on :: "char \<Rightarrow> string \<Rightarrow> string list" where
  "split_on c [] = [[]]"
| "split_on c (x # xs) =
     (if x = c then [] # split_on c xs
      else (case split_on c xs of p # ps \<Rightarrow> (x # p) # ps | [] \<Rightarrow> [[x]]))"

definition endsWith :: "string \<Rightarrow> string \<Rightarrow> bool" where
  "endsWith s suffix = (length suffix \<le> length s \<and> drop (length s - length suffix) s = suffix)"

definition is_digit :: "char \<Rightarrow> bool" where
  "is_digit c = (48 \<le> (of_char c :: nat) \<and> (of_char c :: nat) \<le> 57)"

definition digit_val :: "char \<Rightarrow> nat" where
  "digit_val c = of_char c - 48"

definition digit_char :: "nat \<Rightarrow> char" where
  "digit_char n = char_of (48 + n)"

text \<open>Decimal rendering of a non-negative integer, as \<open>String(n)\<close> and template literals do.\<close>

fun decimal :: "nat \<Rightarrow> string" where
  "decimal n = (if n < 10 then [digit_char n] else decimal (n div 10) @ [digit_char (n mod 10)])"

declare decimal.simps [simp del]

section \<open>Signature verifier (\<open>lib/github/webhooks\<close>, the second file of \<open>src/lib/cloudflare/dns.ts\<close>)\<close>

text \<open>
  \<open>createHmac("sha256", secret).update(payload).digest("hex")\<close> is Node's crypto library.
  The keyed hash itself is a parameter \<open>hmac secret payload\<close> giving the digest bytes;
  \<open>digest("hex")\<close> is \<open>hex_encode\<close> of them and \<open>Buffer.from(s, "hex")\<close> is
  \<open>buffer_from_hex\<close>, which reads two hex digits per byte (either case) and stops at
  the first pair that is not hexadecimal or at a trailing single character.
\<close>

definition hex_digit :: "nat \<Rightarrow> char" where
  "hex_digit n = ''0123456789abcdef'' ! n"

definition hex_val :: "char \<Rightarrow> nat option" where
  "hex_val c =
     (let k = (of_char c :: nat) in
      if 48 \<le> k \<and> k \<le> 57 then Some (k - 48)
      else if 97 \<le> k \<and> k \<le> 102 then Some (k - 87)
      else if 65 \<le> k \<and> k \<le> 70 then Some (k - 55)
      else None)"

fun hex_encode :: "byte list \<Rightarrow> string" where
  "hex_encode [] = []"
| "hex_encode (b # bs) = hex_digit (unat b div 16) # hex_digit (unat b mod 16) # hex_encode bs"

fun buffer_from_hex :: "string \<Rightarrow> byte list" where
  "buffer_from_hex (a # b # rest) =
     (case (hex_val a, hex_val b) of
        (Some h, Some l) \<Rightarrow> of_nat (16 * h + l) # buffer_from_hex rest
      | _ \<Rightarrow> [])"
| "buffer_from_hex _ = []"

text \<open>\<open>crypto.timingSafeEqual\<close> throws a \<open>RangeError\<close> when the buffers differ in length.\<close>

definition timingSafeEqual :: "byte list \<Rightarrow> byte list \<Rightarrow> exn + bool" where
  "timingSafeEqual a b =
     (if length a \<noteq> length b
      then Inl (Error ''Input buffers must have the same byte length'')
      else Inr (a = b))"

text \<open>
  The result is \<open>exn + bool\<close> so that an escaping exception would be visible as \<open>Inl\<close>;
  the \<open>try\<close>/\<open>catch\<close> around \<open>timingSafeEqual\<close> turns its throw into \<open>false\<close>.
  \<open>!signature\<close> holds for \<open>null\<close> and for the empty string.
\<close>

definition verifyWebhookSignature ::
  "(string \<Rightarrow> string \<Rightarrow> byte list) \<Rightarrow> string \<Rightarrow> string option \<Rightarrow> string \<Rightarrow> exn + bool" where
  "verifyWebhookSignature hmac payload signature secret =
     (case signature of
        None \<Rightarrow> Inr False
      | Some sig \<Rightarrow>
          if sig = [] then Inr False
          else
            let parts = split_on CHR ''='' sig in
            if length parts \<noteq> 2 \<or> parts ! 0 \<noteq> ''sha256'' then Inr False
            else
              let expectedSignature = hex_encode (hmac secret payload);
                  providedSignature = parts ! 1
              in (case timingSafeEqual (buffer_from_hex expectedSignature)
                                       (buffer_from_hex providedSignature) of
                    Inl _ \<Rightarrow> Inr False
                  | Inr b \<Rightarrow> Inr b))"




section \<open>Resource quantities (\<open>lib/kubernetes/metrics\<close>, in \<open>src/unnamed/part_004\<close>)\<close>

text \<open>
  A JavaScript number is an IEEE-754 double: \<open>NaN\<close>, one of the two infinities, or a
  finite value. A finite double is carried as the rational it denotes (every finite double
  is a rational); the two zeros are identified, which no comparison or product of the
  parser tells apart. Arithmetic computes the exact rational result and rounds it with
  \<open>to_double\<close>, as IEEE-754 prescribes.
\<close>

datatype jsnum = NaN | Num rat | PosInf | NegInf

text \<open>The number of binary digits of a positive integer.\<close>

function bit_length :: "int \<Rightarrow> nat" where
  "bit_length n = (if n \<le> 0 then 0 else Suc (bit_length (n div 2)))"
  by auto
termination
  by (relation "measure nat") auto

declare bit_length.simps [simp del]

definition pow2 :: "int \<Rightarrow> rat" where
  "pow2 e = (if 0 \<le> e then 2 ^ nat e else 1 / 2 ^ nat (- e))"

text \<open>
  The binary exponent of a positive rational \<open>a\<close>: the \<open>e\<close> with
  \<open>2^e \<le> a < 2^(e+1)\<close>.
\<close>

definition exponent :: "rat \<Rightarrow> int" where
  "exponent a =
     (if 1 \<le> a then int (bit_length \<lfloor>a\<rfloor>) - 1
      else - int (bit_length (\<lceil>1 / a\<rceil> - 1)))"

definition round_half_even :: "rat \<Rightarrow> int" where
  "round_half_even x =
     (let m = \<lfloor>x\<rfloor>; fr = x - of_int m in
      if fr < 1 / 2 then m
      else if 1 / 2 < fr then m + 1
      else if even m then m else m + 1)"

text \<open>
  Rounding to the nearest double, ties to the even significand: 53 significant bits, the
  spacing never finer than \<open>2^-1074\<close> (subnormal numbers), and a result of \<open>2^1024\<close> or more
  in magnitude becomes an infinity.
\<close>

definition to_double :: "rat \<Rightarrow> jsnum" where
  "to_double r =
     (if r = 0 then Num 0
      else
        let a = \<bar>r\<bar>;
            e = max (exponent a - 52) (- 1074);
            v = of_int (round_half_even (a / pow2 e)) * pow2 e
        in if 2 ^ 1024 \<le> v then (if r < 0 then NegInf else PosInf)
           else Num (if r < 0 then - v else v))"

text \<open>
  \<open>x * k\<close> and \<open>x / k\<close> for a finite double constant \<open>k\<close> (here \<open>1024\<close>, \<open>1000\<close> and
  \<open>1000000\<close>), and \<open>x < k\<close>.
\<close>

definition jmul :: "jsnum \<Rightarrow> rat \<Rightarrow> jsnum" where
  "jmul x k =
     (case x of
        NaN \<Rightarrow> NaN
      | Num r \<Rightarrow> to_double (r * k)
      | PosInf \<Rightarrow> (if k = 0 then NaN else if 0 < k then PosInf else NegInf)
      | NegInf \<Rightarrow> (if k = 0 then NaN else if 0 < k then NegInf else PosInf))"

definition jdiv :: "jsnum \<Rightarrow> rat \<Rightarrow> jsnum" where
  "jdiv x k =
     (case x of
        NaN \<Rightarrow> NaN
      | Num r \<Rightarrow>
          (if k = 0 then (if r = 0 then NaN else if 0 < r then PosInf else NegInf)
           else to_double (r / k))
      | PosInf \<Rightarrow> (if 0 \<le> k then PosInf else NegInf)
      | NegInf \<Rightarrow> (if 0 \<le> k then NegInf else PosInf))"

definition isNaN :: "jsnum \<Rightarrow> bool" where
  "isNaN x = (x = NaN)"

definition jless :: "jsnum \<Rightarrow> rat \<Rightarrow> bool" where
  "jless x k =
     (case x of NaN \<Rightarrow> False | Num r \<Rightarrow> r < k | PosInf \<Rightarrow> False | NegInf \<Rightarrow> True)"

definition is_space :: "char \<Rightarrow> bool" where
  "is_space c = ((of_char c :: nat) \<in> {9, 10, 11, 12, 13, 32, 160})"

definition is_letter :: "char \<Rightarrow> bool" where
  "is_letter c =
     (let k = (of_char c :: nat) in (65 \<le> k \<and> k \<le> 90) \<or> (97 \<le> k \<and> k \<le> 122))"

definition digits_value :: "string \<Rightarrow> nat" where
  "digits_value ds = foldl (\<lambda>a c. 10 * a + digit_val c) 0 ds"

text \<open>
  \<open>parseInt(s, 10)\<close>: leading white space is skipped, one sign is read, then the longest
  run of decimal digits; no digit gives \<open>NaN\<close>. The result is the double nearest to the
  signed integer the digits denote. (Past twenty significant digits the language lets an
  engine replace further digits by zeros; the engines this code runs on round the whole
  digit run, which is what \<open>to_double\<close> does.)
\<close>

definition parseInt :: "string \<Rightarrow> jsnum" where
  "parseInt s =
     (let t = dropWhile is_space s;
          neg = (t \<noteq> [] \<and> hd t = CHR ''-'');
          u = (if t \<noteq> [] \<and> (hd t = CHR ''-'' \<or> hd t = CHR ''+'') then tl t else t);
          ds = takeWhile is_digit u
      in if ds = [] then NaN
         else to_double (if neg then - of_nat (digits_value ds) else of_nat (digits_value ds)))"

text \<open>
  The last line of the source, \<open>numValue || 0\<close>, replaces the falsy numbers \<open>NaN\<close> and zero
  by \<open>0\<close>.
\<close>

definition parseResourceValue :: "string \<Rightarrow> jsnum" where
  "parseResourceValue v =
     (if v = [] then Num 0
      else if endsWith v ''m'' then parseInt (butlast v)
      else if endsWith v ''n'' then jdiv (parseInt (butlast v)) 1000000
      else
        let numValue = parseInt v in
        if endsWith v ''Ki'' then jmul numValue 1024
        else if endsWith v ''Mi'' then jmul (jmul numValue 1024) 1024
        else if endsWith v ''Gi'' then jmul (jmul (jmul numValue 1024) 1024) 1024
        else if endsWith v ''Ti'' then jmul (jmul (jmul (jmul numValue 1024) 1024) 1024) 1024
        else if \<not> isNaN numValue \<and> \<not> (\<exists>c \<in> set v. is_letter c) then
          (if jless numValue 1000 then jmul numValue 1000 else numValue)
        else (case numValue of NaN \<Rightarrow> Num 0 | _ \<Rightarrow> numValue))"

text \<open>
  An integer string without unit: an optional sign and at least one decimal digit.
  \<open>int_string_value\<close> is the integer it denotes.
\<close>

definition int_string :: "string \<Rightarrow> bool" where
  "int_string s =
     (let ds = (if s \<noteq> [] \<and> (hd s = CHR ''-'' \<or> hd s = CHR ''+'') then tl s else s)
      in ds \<noteq> [] \<and> list_all is_digit ds)"

definition int_string_value :: "string \<Rightarrow> int" where
  "int_string_value s =
     (if s \<noteq> [] \<and> hd s = CHR ''-'' then - int (digits_value (tl s))
      else if s \<noteq> [] \<and> hd s = CHR ''+'' then int (digits_value (tl s))
      else int (digits_value s))"

section \<open>Event parser (\<open>lib/github/webhooks\<close>, the second file of \<open>src/lib/cloudflare/dns.ts\<close>)\<close>

text \<open>
  The payload is whatever \<open>JSON.parse\<close> returned, so it is modelled as a JavaScript
  value: the JSON values and \<open>undefined\<close>.  An object is the association list of its own
  properties (keys distinct).  The TypeScript casts of the source (\<open>as string\<close>,
  \<open>as Record<string, unknown>\<close>) check nothing at run time, so the fields of the parsed
  event are JavaScript values too.
\<close>

datatype jsval =
    JUndefined
  | JNull
  | JBool bool
  | JNum rat
  | JStr string
  | JArr "jsval list"
  | JObj "(string \<times> jsval) list"

fun truthy :: "jsval \<Rightarrow> bool" where
  "truthy JUndefined = False"
| "truthy JNull = False"
| "truthy (JBool b) = b"
| "truthy (JNum r) = (r \<noteq> 0)"
| "truthy (JStr s) = (s \<noteq> [])"
| "truthy (JArr xs) = True"
| "truthy (JObj kvs) = True"

text \<open>\<open>typeof v === "object"\<close>: objects, arrays and \<open>null\<close>.\<close>

fun typeof_object :: "jsval \<Rightarrow> bool" where
  "typeof_object JNull = True"
| "typeof_object (JArr xs) = True"
| "typeof_object (JObj kvs) = True"
| "typeof_object v = False"

text \<open>
  Reading a property \<open>v.k\<close>.  On \<open>undefined\<close> and \<open>null\<close> it throws a \<open>TypeError\<close> (the
  message is the engine's, here without its quotation marks); on an object it is the own
  property or \<open>undefined\<close>; on every other value it is \<open>undefined\<close> for the names the
  parser reads (none of them is defined on the prototypes of arrays, strings, numbers or
  booleans).
\<close>

fun member :: "jsval \<Rightarrow> string \<Rightarrow> exn + jsval" where
  "member JUndefined k =
     Inl (Error (''Cannot read properties of undefined (reading '' @ k @ '')''))"
| "member JNull k =
     Inl (Error (''Cannot read properties of null (reading '' @ k @ '')''))"
| "member (JObj kvs) k = (case map_of kvs k of Some v \<Rightarrow> Inr v | None \<Rightarrow> Inr JUndefined)"
| "member v k = Inr JUndefined"

definition bindE :: "exn + 'a \<Rightarrow> ('a \<Rightarrow> exn + 'b) \<Rightarrow> exn + 'b" where
  "bindE m f = (case m of Inl e \<Rightarrow> Inl e | Inr x \<Rightarrow> f x)"

record PushEvent =
  ev_ref :: jsval
  ev_after :: jsval
  ev_repository_full_name :: jsval
  ev_head_commit :: "(jsval \<times> jsval) option" \<comment> \<open>\<open>id\<close> and \<open>message\<close>, or \<open>null\<close>\<close>
  ev_pusher_name :: jsval
  ev_pusher_email :: jsval

text \<open>
  The result is \<open>Inl\<close> when the function throws, \<open>Inr None\<close> when it returns \<open>null\<close>.
  The fields of the object literal are evaluated in the order of the source.
\<close>

definition parsePushEvent :: "jsval \<Rightarrow> exn + PushEvent option" where
  "parsePushEvent payload =
     (if \<not> truthy payload \<or> \<not> typeof_object payload then Inr None
      else
        bindE (member payload ''ref'') (\<lambda>ref.
        bindE (member payload ''after'') (\<lambda>after.
        bindE (member payload ''repository'') (\<lambda>repository.
          if \<not> truthy ref \<or> \<not> truthy after \<or> \<not> truthy repository then Inr None
          else
            bindE (member repository ''full_name'') (\<lambda>full_name.
            bindE (member payload ''head_commit'') (\<lambda>head_commit.
            bindE (if truthy head_commit
                   then bindE (member head_commit ''id'') (\<lambda>i.
                        bindE (member head_commit ''message'') (\<lambda>m. Inr (Some (i, m))))
                   else Inr None) (\<lambda>hc.
            bindE (member payload ''pusher'') (\<lambda>pusher.
            bindE (member pusher ''name'') (\<lambda>pname.
            bindE (member pusher ''email'') (\<lambda>pemail.
              Inr (Some \<lparr> ev_ref = ref, ev_after = after,
                          ev_repository_full_name = full_name,
                          ev_head_commit = hc,
                          ev_pusher_name = pname, ev_pusher_email = pemail \<rparr>)))))))))))"

text \<open>A field is present when the payload is an object that has it with a value other than \<open>null\<close>.\<close>

definition present :: "jsval \<Rightarrow> string \<Rightarrow> bool" where
  "present v k =
     (case v of
        JObj kvs \<Rightarrow> (case map_of kvs k of Some x \<Rightarrow> x \<noteq> JNull \<and> x \<noteq> JUndefined | None \<Rightarrow> False)
      | _ \<Rightarrow> False)"

definition required_fields_present :: "jsval \<Rightarrow> bool" where
  "required_fields_present payload =
     (present payload ''ref'' \<and> present payload ''after'' \<and>
      (case member payload ''repository'' of
         Inr repository \<Rightarrow> present repository ''full_name''
       | Inl e \<Rightarrow> False))"

text \<open>
  \<open>ref.match(/^refs\/heads\/(.+)$/)\<close>: the prefix, then at least one character, none of
  them a line terminator (the dot does not match one).
\<close>

definition line_terminator :: "char \<Rightarrow> bool" where
  "line_terminator c = ((of_char c :: nat) \<in> {10, 13})"

definition extractBranchFromRef :: "string \<Rightarrow> string option" where
  "extractBranchFromRef ref =
     (let rest = drop 11 ref in
      if take 11 ref = ''refs/heads/'' \<and> rest \<noteq> [] \<and> \<not> (\<exists>c \<in> set rest. line_terminator c)
      then Some rest else None)"

section \<open>Persisted records (\<open>src/lib/db/schema.ts\<close>)\<close>

text \<open>
  The tables are lists of rows.  A nullable column is an \<open>option\<close>; \<open>status\<close> is a text
  column, so it is a string.  Timestamps are natural numbers.  Of a project and of a user
  only the columns the pipeline reads are kept.
\<close>

record deployment =
  deploymentId :: string
  projectId :: string
  commitSha :: string
  commitMsg :: "string option"
  status :: string
  logs :: "string option"
  buildLogs :: "string option"
  imageTag :: "string option"
  error :: "string option"
  createdAt :: nat
  finishedAt :: "nat option"

record project =
  project_id :: string
  slug :: string
  repoFullName :: string
  branch :: string
  buildCommand :: "string option"
  port :: int
  envVars :: "(string \<times> string) list"
  nodeAffinity :: "string option"
  cpuLimit :: string
  cpuRequest :: string
  memoryLimit :: string
  memoryRequest :: string
  replicas :: int
  subdomain :: string
  customDomain :: "string option"
  webhookSecret :: string
  userId :: string

record user =
  user_id :: string
  cloudflareToken :: "string option"
  cloudflareZone :: "string option"

record db =
  deployments :: "deployment list"
  projects :: "project list"
  users :: "user list"

definition find_deployment :: "db \<Rightarrow> string \<Rightarrow> deployment option" where
  "find_deployment d i = find (\<lambda>r. deploymentId r = i) (deployments d)"

definition find_project :: "db \<Rightarrow> string \<Rightarrow> project option" where
  "find_project d i = find (\<lambda>r. project_id r = i) (projects d)"

definition find_user :: "db \<Rightarrow> string \<Rightarrow> user option" where
  "find_user d i = find (\<lambda>r. user_id r = i) (users d)"

text \<open>\<open>update(deployments).set(..).where(eq(deployments.id, i))\<close>.\<close>

definition update_deployment :: "db \<Rightarrow> string \<Rightarrow> (deployment \<Rightarrow> deployment) \<Rightarrow> db" where
  "update_deployment d i f =
     d\<lparr>deployments := map (\<lambda>r. if deploymentId r = i then f r else r) (deployments d)\<rparr>"

text \<open>
  \<open>insert(deployments).values(..)\<close>: the primary key and the foreign key to the project
  are checked by the database, which raises when one is violated.
\<close>

definition insert_deployment :: "db \<Rightarrow> deployment \<Rightarrow> exn + db" where
  "insert_deployment d r =
     (if \<exists>x \<in> set (deployments d). deploymentId x = deploymentId r
      then Inl (Error ''duplicate key value violates unique constraint'')
      else if find_project d (projectId r) = None
      then Inl (Error ''insert or update violates foreign key constraint'')
      else Inr (d\<lparr>deployments := deployments d @ [r]\<rparr>))"

text \<open>
  The row an insert writes: the given values, the identifier from \<open>crypto.randomUUID()\<close>,
  \<open>createdAt\<close> from the clock and every other column \<open>null\<close>.
\<close>

definition new_deployment ::
  "string \<Rightarrow> nat \<Rightarrow> string \<Rightarrow> string \<Rightarrow> string option \<Rightarrow> string \<Rightarrow> string option \<Rightarrow> deployment" where
  "new_deployment uuid now pid sha msg st tag =
     \<lparr> deploymentId = uuid, projectId = pid, commitSha = sha, commitMsg = msg, status = st,
       logs = None, buildLogs = None, imageTag = tag, error = None, createdAt = now,
       finishedAt = None \<rparr>"

text \<open>\<open>x || undefined\<close> and truthiness of a nullable string.\<close>

definition nonempty :: "string option \<Rightarrow> string option" where
  "nonempty x = (case x of None \<Rightarrow> None | Some s \<Rightarrow> if s = [] then None else Some s)"

definition errmsg :: "exn \<Rightarrow> string" where
  "errmsg e = (case e of Error m \<Rightarrow> m | NonError \<Rightarrow> ''Unknown error'')"

section \<open>Deployments router: cancel and rollback (\<open>src/unnamed/part_007\<close>, \<open>src/unnamed/part_008\<close>)\<close>

datatype trpc_error =
    NOT_FOUND
  | BAD_REQUEST string
  | UNAUTHORIZED string
  | INTERNAL_SERVER_ERROR exn

text \<open>
  Both procedures take the caller's user id (\<open>ctx.user.id\<close>), the clock and the database,
  and return the result with the database after the call.  The deployment is read joined
  with its project; a row without project (which the foreign key excludes) would make
  \<open>deployment.project.userId\<close> throw.
\<close>

definition cancelled :: "nat \<Rightarrow> deployment \<Rightarrow> deployment" where
  "cancelled now r = r\<lparr>status := ''failed'', error := Some ''Cancelled by user'',
                        finishedAt := Some now\<rparr>"

definition cancel :: "string \<Rightarrow> nat \<Rightarrow> string \<Rightarrow> db \<Rightarrow> (trpc_error + deployment) \<times> db" where
  "cancel uid now i d =
     (case find_deployment d i of
        None \<Rightarrow> (Inl NOT_FOUND, d)
      | Some r \<Rightarrow>
          (case find_project d (projectId r) of
             None \<Rightarrow> (Inl (INTERNAL_SERVER_ERROR
                        (Error ''Cannot read properties of null (reading userId)'')), d)
           | Some p \<Rightarrow>
               if userId p \<noteq> uid then (Inl NOT_FOUND, d)
               else if status r \<noteq> ''pending'' \<and> status r \<noteq> ''building''
               then (Inl (BAD_REQUEST ''Cannot cancel deployment in current state''), d)
               else (Inr (cancelled now r), update_deployment d i (cancelled now))))"

definition rollback ::
  "string \<Rightarrow> nat \<Rightarrow> string \<Rightarrow> string \<Rightarrow> db \<Rightarrow> (trpc_error + deployment) \<times> db" where
  "rollback uid now uuid i d =
     (case find_deployment d i of
        None \<Rightarrow> (Inl NOT_FOUND, d)
      | Some r \<Rightarrow>
          (case find_project d (projectId r) of
             None \<Rightarrow> (Inl (INTERNAL_SERVER_ERROR
                        (Error ''Cannot read properties of null (reading userId)'')), d)
           | Some p \<Rightarrow>
               if userId p \<noteq> uid then (Inl NOT_FOUND, d)
               else if status r \<noteq> ''live'' \<or> nonempty (imageTag r) = None
               then (Inl (BAD_REQUEST
                      ''Can only rollback to successful deployments with an image''), d)
               else
                 let newDeployment =
                       new_deployment uuid now (projectId r) (commitSha r)
                         (Some (''Rollback to '' @ take 7 (commitSha r))) ''pending''
                         (imageTag r)
                 in (case insert_deployment d newDeployment of
                       Inl e \<Rightarrow> (Inl (INTERNAL_SERVER_ERROR e), d)
                     | Inr d' \<Rightarrow> (Inr newDeployment, d'))))"

section \<open>Projects router: manual trigger (\<open>src/server/routers/projects.ts\<close>)\<close>

text \<open>
  \<open>getGitHubAccessToken\<close> and \<open>getLatestCommit\<close> call the account store and the source
  host; their outcomes are arguments: the token (or \<open>null\<close>), and the commit's hash and
  message, or the exception either throws.
\<close>

definition triggerDeploy ::
  "string \<Rightarrow> nat \<Rightarrow> string \<Rightarrow> (exn + string option) \<Rightarrow> (exn + string \<times> string) \<Rightarrow> string \<Rightarrow> db
     \<Rightarrow> (trpc_error + deployment) \<times> db" where
  "triggerDeploy uid now uuid token latestCommit pid d =
     (case find (\<lambda>p. project_id p = pid \<and> userId p = uid) (projects d) of
        None \<Rightarrow> (Inl NOT_FOUND, d)
      | Some p \<Rightarrow>
          (case token of
             Inl e \<Rightarrow> (Inl (INTERNAL_SERVER_ERROR e), d)
           | Inr t \<Rightarrow>
               if nonempty t = None then (Inl (UNAUTHORIZED ''GitHub account not connected''), d)
               else
                 (case latestCommit of
                    Inl e \<Rightarrow> (Inl (INTERNAL_SERVER_ERROR e), d)
                  | Inr (sha, message) \<Rightarrow>
                      let r = new_deployment uuid now (project_id p) sha
                                (Some (take 500 message)) ''pending'' None
                      in (case insert_deployment d r of
                            Inl e \<Rightarrow> (Inl (INTERNAL_SERVER_ERROR e), d)
                          | Inr d' \<Rightarrow> (Inr r, d')))))"

section \<open>Webhook endpoint (\<open>src/app/api/webhooks/github/route.ts\<close>)\<close>

text \<open>
  What the handler takes from outside: \<open>JSON.parse\<close>, the keyed hash, the identifier and
  the clock of the insert, and \<open>sql_text\<close>, the text the database driver sends for a
  query parameter that is not a string (\<open>None\<close> is SQL \<open>NULL\<close>; the driver may also
  throw).
\<close>

record webhook_env =
  JSON_parse :: "string \<Rightarrow> exn + jsval"
  hmac_sha256 :: "string \<Rightarrow> string \<Rightarrow> byte list"
  sql_text :: "jsval \<Rightarrow> exn + string option"
  randomUUID :: string
  clock :: nat

record request =
  req_body :: string
  x_github_event :: "string option"
  x_hub_signature_256 :: "string option"

record response =
  resp_status :: nat
  resp_json :: "(string \<times> string) list"

definition sql_param :: "webhook_env \<Rightarrow> jsval \<Rightarrow> exn + string option" where
  "sql_param env v = (case v of JStr s \<Rightarrow> Inr (Some s) | _ \<Rightarrow> sql_text env v)"

text \<open>
  \<open>findFirst\<close> with \<open>repoFullName = full_name AND branch = branch\<close>; a \<open>NULL\<close> parameter
  matches no row.
\<close>

definition find_project_for_push ::
  "webhook_env \<Rightarrow> db \<Rightarrow> jsval \<Rightarrow> string \<Rightarrow> exn + project option" where
  "find_project_for_push env d full_name b =
     bindE (sql_param env full_name) (\<lambda>fn.
       case fn of
         None \<Rightarrow> Inr None
       | Some n \<Rightarrow> Inr (find (\<lambda>p. repoFullName p = n \<and> branch p = b) (projects d)))"

text \<open>
  \<open>parsedEvent.head_commit?.message?.substring(0, 500) || null\<close>: no head commit, no
  message or an empty prefix give \<open>null\<close>; a message that is not a string has no
  \<open>substring\<close> method, and calling it throws.
\<close>

definition push_commitMsg :: "PushEvent \<Rightarrow> exn + string option" where
  "push_commitMsg ev =
     (case ev_head_commit ev of
        None \<Rightarrow> Inr None
      | Some (i, message) \<Rightarrow>
          (case message of
             JUndefined \<Rightarrow> Inr None
           | JNull \<Rightarrow> Inr None
           | JStr m \<Rightarrow> Inr (nonempty (Some (take 500 m)))
           | _ \<Rightarrow> Inl (Error ''parsedEvent.head_commit?.message?.substring is not a function'')))"

definition internal_server_error :: response where
  "internal_server_error = \<lparr>resp_status = 500, resp_json = [(''error'', ''Internal server error'')]\<rparr>"

text \<open>
  The handler, in the order of the source: event type, \<open>JSON.parse\<close> and
  \<open>parsePushEvent\<close>, branch, project lookup, signature, insert.  Every exception inside
  is caught by the enclosing \<open>try\<close> and answered with status 500; the database is
  returned as it is at that moment.  After the insert, the log line reads
  \<open>parsedEvent.after.substring(0, 7)\<close>, which throws when \<open>after\<close> is not a string.
\<close>

definition POST :: "webhook_env \<Rightarrow> request \<Rightarrow> db \<Rightarrow> response \<times> db" where
  "POST env req d =
     (let payload = req_body req in
      if x_github_event req \<noteq> Some ''push''
      then (\<lparr>resp_status = 200, resp_json = [(''message'', ''Event ignored'')]\<rparr>, d)
      else
      case JSON_parse env payload of
        Inl e \<Rightarrow> (internal_server_error, d)
      | Inr json \<Rightarrow>
      case parsePushEvent json of
        Inl e \<Rightarrow> (internal_server_error, d)
      | Inr None \<Rightarrow> (\<lparr>resp_status = 400, resp_json = [(''error'', ''Invalid payload'')]\<rparr>, d)
      | Inr (Some parsedEvent) \<Rightarrow>
      case ev_ref parsedEvent of
        JStr ref \<Rightarrow>
          (case extractBranchFromRef ref of
             None \<Rightarrow> (\<lparr>resp_status = 200, resp_json = [(''message'', ''Not a branch push'')]\<rparr>, d)
           | Some b \<Rightarrow>
          case find_project_for_push env d (ev_repository_full_name parsedEvent) b of
            Inl e \<Rightarrow> (internal_server_error, d)
          | Inr None \<Rightarrow>
              (\<lparr>resp_status = 200, resp_json = [(''message'', ''No matching project found'')]\<rparr>, d)
          | Inr (Some p) \<Rightarrow>
          case verifyWebhookSignature (hmac_sha256 env) payload (x_hub_signature_256 req)
                 (webhookSecret p) of
            Inl e \<Rightarrow> (internal_server_error, d)
          | Inr False \<Rightarrow> (\<lparr>resp_status = 401, resp_json = [(''error'', ''Invalid signature'')]\<rparr>, d)
          | Inr True \<Rightarrow>
          case push_commitMsg parsedEvent of
            Inl e \<Rightarrow> (internal_server_error, d)
          | Inr msg \<Rightarrow>
          case sql_param env (ev_after parsedEvent) of
            Inl e \<Rightarrow> (internal_server_error, d)
          | Inr None \<Rightarrow> (internal_server_error, d)
          | Inr (Some sha) \<Rightarrow>
          case insert_deployment d
                 (new_deployment (randomUUID env) (clock env) (project_id p) sha msg
                    ''pending'' None) of
            Inl e \<Rightarrow> (internal_server_error, d)
          | Inr d' \<Rightarrow>
              (case ev_after parsedEvent of
                 JStr after \<Rightarrow>
                   (\<lparr>resp_status = 200,
                     resp_json = [(''message'', ''Deployment triggered''),
                                  (''deploymentId'', randomUUID env)]\<rparr>, d')
               | _ \<Rightarrow> (internal_server_error, d')))
      | _ \<Rightarrow> (internal_server_error, d))"

section \<open>Image builder (\<open>src/lib/builder/index.ts\<close>)\<close>

record BuildResult =
  br_success :: bool
  br_imageTag :: string
  br_logs :: string
  br_error :: "string option"

record BuildOptions =
  bo_accessToken :: string
  bo_owner :: string
  bo_repo :: "string option" \<comment> \<open>second part of \<open>repoFullName.split("/")\<close>, if any\<close>
  bo_branch :: string
  bo_commitSha :: string
  bo_projectSlug :: string
  bo_registryUrl :: string
  bo_registryUsername :: string
  bo_registryPassword :: string
  bo_buildCommand :: "string option"

text \<open>
  The file system, the source host and the subprocesses are outside the program.  Each
  call is a function of its arguments giving the outcome: \<open>Some e\<close> or \<open>Inl e\<close> when the
  call throws \<open>e\<close>.  \<open>run\<close> is \<open>spawn\<close> as \<open>runCommand\<close> wraps it (command, arguments,
  working directory, extra environment): whether the process closed with code 0, and
  its combined output; \<open>runCommand\<close> never rejects.  \<open>tar\<close> gives whether \<open>tar\<close> closed
  with code 0, and its standard error.  A process that cannot be spawned at all is not
  modelled.
\<close>

record build_env =
  be_randomUUID :: string
  be_mkdir :: "string \<Rightarrow> exn option"
  be_downloadRepository :: "string \<Rightarrow> string \<Rightarrow> string option \<Rightarrow> string \<Rightarrow> exn + nat"
  be_writeFile :: "string \<Rightarrow> exn option"
  be_tar :: "string list \<Rightarrow> string \<Rightarrow> bool \<times> string"
  be_hasDockerfile :: "string \<Rightarrow> string \<Rightarrow> string option \<Rightarrow> string \<Rightarrow> exn + bool"
  be_run :: "string \<Rightarrow> string list \<Rightarrow> string \<Rightarrow> (string \<times> string) list \<Rightarrow> bool \<times> string"
  be_JSON_stringify :: "jsval \<Rightarrow> string"
  be_rm :: "string \<Rightarrow> exn option"

text \<open>The directories that exist.\<close>

type_synonym fs = "string set"

definition extractTarball :: "build_env \<Rightarrow> string \<Rightarrow> exn + string" where
  "extractTarball env destDir =
     (let tarPath = destDir @ ''/repo.tar.gz'' in
      case be_writeFile env tarPath of
        Some e \<Rightarrow> Inl e
      | None \<Rightarrow>
          (case be_tar env [''-xzf'', tarPath, ''-C'', destDir, ''--strip-components=1''] destDir of
             (ok, err) \<Rightarrow>
               if ok then Inr destDir
               else Inl (Error (''Failed to extract tarball: '' @ err))))"

definition buildWithDockerfile ::
  "build_env \<Rightarrow> string \<Rightarrow> string \<Rightarrow> string \<Rightarrow> string \<Rightarrow> string \<Rightarrow> bool \<times> string" where
  "buildWithDockerfile env sourceDir tag registryUrl registryUsername registryPassword =
     (let login =
            (if registryUsername \<noteq> [] \<and> registryPassword \<noteq> [] then
               (case be_run env ''docker''
                       [''login'', registryUrl, ''-u'', registryUsername, ''--password-stdin'']
                       sourceDir [(''DOCKER_PASSWORD'', registryPassword)] of
                  (ok, out) \<Rightarrow> (ok, ''=== Docker Login ==='' @ nl @ out @ nl))
             else (True, ''=== Skipping Docker Login (no credentials) ==='' @ nl))
      in if \<not> fst login then (False, snd login)
         else
           (case be_run env ''docker'' [''build'', ''-t'', tag, ''.''] sourceDir [] of
              (bok, bout) \<Rightarrow>
                let lg = snd login @ nl @ ''=== Docker Build ==='' @ nl @ bout @ nl in
                if \<not> bok then (False, lg)
                else
                  (case be_run env ''docker'' [''push'', tag] sourceDir [] of
                     (pok, pout) \<Rightarrow>
                       (pok, lg @ nl @ ''=== Docker Push ==='' @ nl @ pout @ nl))))"

text \<open>The function returns \<open>packResult\<close> itself, not the log with the header.\<close>

definition buildWithBuildpacks ::
  "build_env \<Rightarrow> string \<Rightarrow> string \<Rightarrow> string \<Rightarrow> string \<Rightarrow> string \<Rightarrow> bool \<times> string" where
  "buildWithBuildpacks env sourceDir tag registryUrl registryUsername registryPassword =
     be_run env ''pack''
       [''build'', tag, ''--builder'', ''paketobuildpacks/builder-jammy-full:latest'',
        ''--publish'']
       sourceDir
       [(''CNB_REGISTRY_AUTH'',
         be_JSON_stringify env
           (JObj [(registryUrl, JObj [(''username'', JStr registryUsername),
                                      (''password'', JStr registryPassword)])]))]"

definition workDir_of :: "build_env \<Rightarrow> string" where
  "workDir_of env = ''/tmp/autotunchi-builds/'' @ be_randomUUID env"

definition imageTag_of :: "BuildOptions \<Rightarrow> string" where
  "imageTag_of options =
     bo_registryUrl options @ ''/'' @ bo_projectSlug options @ '':'' @
     take 7 (bo_commitSha options)"

text \<open>
  The body of the \<open>try\<close> block: the logs so far, the file system, and either the
  exception thrown or the outcome of the build strategy.
\<close>

definition build_try :: "build_env \<Rightarrow> BuildOptions \<Rightarrow> fs \<Rightarrow> (exn + bool \<times> string) \<times> string \<times> fs" where
  "build_try env options f =
     (let workDir = workDir_of env in
      case be_mkdir env workDir of
        Some e \<Rightarrow> (Inl e, [], f)
      | None \<Rightarrow>
      let f1 = insert workDir (insert ''/tmp/autotunchi-builds'' f);
          logs1 = ''=== Downloading source ==='' @ nl in
      case be_downloadRepository env (bo_accessToken options) (bo_owner options)
             (bo_repo options) (bo_commitSha options) of
        Inl e \<Rightarrow> (Inl e, logs1, f1)
      | Inr byteLength \<Rightarrow>
      let logs2 = logs1 @ ''Downloaded '' @ decimal byteLength @ '' bytes'' @ nl in
      case extractTarball env workDir of
        Inl e \<Rightarrow> (Inl e, logs2, f1)
      | Inr dir \<Rightarrow>
      let logs3 = logs2 @ ''Extracted to '' @ workDir @ nl in
      case be_hasDockerfile env (bo_accessToken options) (bo_owner options)
             (bo_repo options) (bo_branch options) of
        Inl e \<Rightarrow> (Inl e, logs3, f1)
      | Inr useDockerfile \<Rightarrow>
      let logs4 = logs3 @ nl @ ''=== Build Strategy: '' @
                  (if useDockerfile then ''Dockerfile'' else ''Buildpacks'') @ '' ==='' @ nl;
          buildResult =
            (if useDockerfile
             then buildWithDockerfile env workDir (imageTag_of options)
                    (bo_registryUrl options) (bo_registryUsername options)
                    (bo_registryPassword options)
             else buildWithBuildpacks env workDir (imageTag_of options)
                    (bo_registryUrl options) (bo_registryUsername options)
                    (bo_registryPassword options))
      in (Inr buildResult, logs4 @ snd buildResult, f1))"

text \<open>
  The \<open>finally\<close> block: \<open>rm(workDir, {recursive, force})\<close> inside its own \<open>try\<close>, whose
  \<open>catch\<close> ignores the error.  A removal that throws leaves the directory.
\<close>

definition cleanup :: "build_env \<Rightarrow> fs \<Rightarrow> fs" where
  "cleanup env f =
     (case be_rm env (workDir_of env) of
        None \<Rightarrow> f - {workDir_of env}
      | Some e \<Rightarrow> f)"

definition buildProject :: "build_env \<Rightarrow> BuildOptions \<Rightarrow> fs \<Rightarrow> BuildResult \<times> fs" where
  "buildProject env options f =
     (case build_try env options f of
        (Inr (ok, out), lg, f') \<Rightarrow>
          (\<lparr> br_success = ok, br_imageTag = imageTag_of options, br_logs = lg,
              br_error = (if ok then None else Some ''Build failed'') \<rparr>,
           cleanup env f')
      | (Inl e, lg, f') \<Rightarrow>
          (\<lparr> br_success = False, br_imageTag = imageTag_of options,
              br_logs = lg @ nl @ ''=== Error ==='' @ nl @ errmsg e @ nl,
              br_error = Some (errmsg e) \<rparr>,
           cleanup env f'))"

section \<open>Infrastructure provisioner, as the orchestrator calls it (\<open>src/lib/pulumi/automation.ts\<close>)\<close>

record DeploymentConfig =
  dc_projectSlug :: string
  dc_imageTag :: string
  dc_port :: int
  dc_replicas :: int
  dc_cpuRequest :: string
  dc_cpuLimit :: string
  dc_memoryRequest :: string
  dc_memoryLimit :: string
  dc_nodeAffinity :: "string option"
  dc_envVars :: "(string \<times> string) list"
  dc_subdomain :: string
  dc_customDomain :: "string option"
  dc_platformDomain :: string
  dc_ingressClass :: string

record DeployResult =
  dr_success :: bool
  dr_error :: "string option"

text \<open>
  \<open>deployProject\<close> runs the stack update inside a \<open>try\<close> and turns every exception into
  \<open>success: false\<close>; the update itself is the argument \<open>up\<close>.
\<close>

definition deployProject :: "(DeploymentConfig \<Rightarrow> exn option) \<Rightarrow> DeploymentConfig \<Rightarrow> DeployResult" where
  "deployProject up config =
     (case up config of
        None \<Rightarrow> \<lparr>dr_success = True, dr_error = None\<rparr>
      | Some e \<Rightarrow> \<lparr>dr_success = False, dr_error = Some (errmsg e)\<rparr>)"

section \<open>Deployment state machine (\<open>src/lib/deploy/worker.ts\<close>, \<open>src/unnamed/part_005\<close>)\<close>

text \<open>
  What the orchestrator takes from outside: the clock, the account store
  (\<open>getGitHubAccessToken\<close>), the process environment, the builder's environment,
  \<open>decryptJson\<close>, the stack update and \<open>setupProjectDns\<close> (token, zone, name, address).
  Updates of an existing row are taken to succeed.
\<close>

record worker_env =
  we_clock :: nat
  we_getGitHubAccessToken :: "string \<Rightarrow> exn + string option"
  we_REGISTRY_URL :: string
  we_REGISTRY_USERNAME :: string
  we_REGISTRY_PASSWORD :: string
  we_PLATFORM_DOMAIN :: string
  we_INGRESS_CLASS :: "string option"
  we_INGRESS_IP :: "string option"
  we_build :: build_env
  we_decryptJson :: "(string \<times> string) list \<Rightarrow> exn + (string \<times> string) list"
  we_up :: "DeploymentConfig \<Rightarrow> exn option"
  we_setupProjectDns :: "string \<Rightarrow> string \<Rightarrow> string \<Rightarrow> string \<Rightarrow> exn option"

definition or_default :: "string option \<Rightarrow> string \<Rightarrow> string" where
  "or_default x dflt = (case nonempty x of None \<Rightarrow> dflt | Some s \<Rightarrow> s)"

definition build_options :: "worker_env \<Rightarrow> deployment \<Rightarrow> project \<Rightarrow> string \<Rightarrow> BuildOptions" where
  "build_options env r p accessToken =
     (let parts = split_on CHR ''/'' (repoFullName p) in
      \<lparr> bo_accessToken = accessToken,
        bo_owner = (case parts of x # xs \<Rightarrow> x | [] \<Rightarrow> []),
        bo_repo = (if 1 < length parts then Some (parts ! 1) else None),
        bo_branch = branch p,
        bo_commitSha = commitSha r,
        bo_projectSlug = slug p,
        bo_registryUrl = we_REGISTRY_URL env,
        bo_registryUsername = we_REGISTRY_USERNAME env,
        bo_registryPassword = we_REGISTRY_PASSWORD env,
        bo_buildCommand = nonempty (buildCommand p) \<rparr>)"

definition deployment_config ::
  "worker_env \<Rightarrow> project \<Rightarrow> string \<Rightarrow> (string \<times> string) list \<Rightarrow> DeploymentConfig" where
  "deployment_config env p tag vars =
     \<lparr> dc_projectSlug = slug p, dc_imageTag = tag, dc_port = port p,
       dc_replicas = replicas p, dc_cpuRequest = cpuRequest p, dc_cpuLimit = cpuLimit p,
       dc_memoryRequest = memoryRequest p, dc_memoryLimit = memoryLimit p,
       dc_nodeAffinity = nonempty (nodeAffinity p), dc_envVars = vars,
       dc_subdomain = subdomain p, dc_customDomain = nonempty (customDomain p),
       dc_platformDomain = we_PLATFORM_DOMAIN env,
       dc_ingressClass = or_default (we_INGRESS_CLASS env) ''nginx'' \<rparr>"

text \<open>
  The DNS step.  It needs \<open>project.user\<close>: a project without user (which the foreign
  key excludes) makes the read throw, outside the inner \<open>try\<close>.  Inside the inner \<open>try\<close>
  every exception is caught and dropped, so the step has no other outcome.
\<close>

definition dns_step :: "worker_env \<Rightarrow> project \<Rightarrow> user option \<Rightarrow> exn option" where
  "dns_step env p u =
     (case u of
        None \<Rightarrow> Some (Error ''Cannot read properties of null (reading cloudflareToken)'')
      | Some usr \<Rightarrow>
          (case (nonempty (cloudflareToken usr), nonempty (cloudflareZone usr)) of
             (Some token, Some zone) \<Rightarrow>
               let ingressIp = or_default (we_INGRESS_IP env) ''127.0.0.1'';
                   fullDomain = subdomain p @ ''.'' @ we_PLATFORM_DOMAIN env
               in (case we_setupProjectDns env token zone fullDomain ingressIp of
                     Some e \<Rightarrow> None
                   | None \<Rightarrow>
                       (case nonempty (customDomain p) of
                          None \<Rightarrow> None
                        | Some custom \<Rightarrow>
                            (case we_setupProjectDns env token zone custom ingressIp of
                               Some e \<Rightarrow> None
                             | None \<Rightarrow> None)))
           | _ \<Rightarrow> None))"

text \<open>
  The body of the outer \<open>try\<close>, for the deployment, its project and the project's user
  as read at the start: the exception it throws, if any, with the database and the file
  system at that point.
\<close>

definition pipeline ::
  "worker_env \<Rightarrow> deployment \<Rightarrow> project \<Rightarrow> user option \<Rightarrow> db \<Rightarrow> fs
     \<Rightarrow> exn option \<times> db \<times> fs" where
  "pipeline env r p u d f =
     (let i = deploymentId r;
          d1 = update_deployment d i (\<lambda>x. x\<lparr>status := ''building''\<rparr>)
      in
      case we_getGitHubAccessToken env (userId p) of
        Inl e \<Rightarrow> (Some e, d1, f)
      | Inr t \<Rightarrow>
      case nonempty t of
        None \<Rightarrow> (Some (Error ''GitHub access token not found''), d1, f)
      | Some accessToken \<Rightarrow>
      case buildProject (we_build env) (build_options env r p accessToken) f of
        (buildResult, f') \<Rightarrow>
      let d2 = update_deployment d1 i (\<lambda>x. x\<lparr>buildLogs := Some (br_logs buildResult)\<rparr>) in
      if \<not> br_success buildResult
      then (Some (Error (or_default (br_error buildResult) ''Build failed'')), d2, f')
      else
      let d3 = update_deployment d2 i
                 (\<lambda>x. x\<lparr>status := ''deploying'', imageTag := Some (br_imageTag buildResult)\<rparr>)
      in
      case we_decryptJson env (envVars p) of
        Inl e \<Rightarrow> (Some e, d3, f')
      | Inr vars \<Rightarrow>
      let deployResult =
            deployProject (we_up env) (deployment_config env p (br_imageTag buildResult) vars)
      in
      if \<not> dr_success deployResult
      then (Some (Error (or_default (dr_error deployResult) ''Deployment failed'')), d3, f')
      else
      case dns_step env p u of
        Some e \<Rightarrow> (Some e, d3, f')
      | None \<Rightarrow>
          (None,
           update_deployment d3 i (\<lambda>x. x\<lparr>status := ''live'', finishedAt := Some (we_clock env)\<rparr>),
           f'))"

text \<open>
  \<open>processDeployment\<close>: the promise's rejection, if any, with the database and the file
  system afterwards.  The deployment is read with its project and the project's user.
  An unknown deployment returns at once; the \<open>catch\<close> of the outer \<open>try\<close> records
  the failure.
\<close>

definition processDeployment :: "worker_env \<Rightarrow> string \<Rightarrow> db \<Rightarrow> fs \<Rightarrow> exn option \<times> db \<times> fs" where
  "processDeployment env i d f =
     (case find_deployment d i of
        None \<Rightarrow> (None, d, f)
      | Some r \<Rightarrow>
          (case find_project d (projectId r) of
             None \<Rightarrow> (Some (Error ''Cannot read properties of null (reading repoFullName)''), d, f)
           | Some p \<Rightarrow>
               (case pipeline env r p (find_user d (userId p)) d f of
                  (None, d', f') \<Rightarrow> (None, d', f')
                | (Some e, d', f') \<Rightarrow>
                    (None,
                     update_deployment d' i
                       (\<lambda>x. x\<lparr>status := ''failed'', error := Some (errmsg e),
                                finishedAt := Some (we_clock env)\<rparr>),
                     f'))))"

definition db_after :: "worker_env \<Rightarrow> string \<Rightarrow> db \<Rightarrow> fs \<Rightarrow> db" where
  "db_after env i d f = fst (snd (processDeployment env i d f))"

text \<open>
  The build phase of a run succeeds when the access token is found and \<open>buildProject\<close>
  returns \<open>success: true\<close>.  Provisioning succeeds when, with the image of that build,
  the environment decrypts and \<open>deployProject\<close> returns \<open>success: true\<close>.  The tag the
  builder resolves does not depend on the access token.
\<close>

definition build_succeeds :: "worker_env \<Rightarrow> deployment \<Rightarrow> project \<Rightarrow> fs \<Rightarrow> bool" where
  "build_succeeds env r p f =
     (case we_getGitHubAccessToken env (userId p) of
        Inl e \<Rightarrow> False
      | Inr t \<Rightarrow>
          (case nonempty t of
             None \<Rightarrow> False
           | Some accessToken \<Rightarrow>
               br_success (fst (buildProject (we_build env) (build_options env r p accessToken) f))))"

definition built_tag :: "worker_env \<Rightarrow> deployment \<Rightarrow> project \<Rightarrow> string" where
  "built_tag env r p = we_REGISTRY_URL env @ ''/'' @ slug p @ '':'' @ take 7 (commitSha r)"

definition provisioning_succeeds :: "worker_env \<Rightarrow> deployment \<Rightarrow> project \<Rightarrow> bool" where
  "provisioning_succeeds env r p =
     (case we_decryptJson env (envVars p) of
        Inl e \<Rightarrow> False
      | Inr vars \<Rightarrow>
          dr_success (deployProject (we_up env)
            (deployment_config env p (built_tag env r p) vars)))"

section \<open>Runs of the system\<close>

text \<open>
  The operations that create or change Deployment records, each with the outcomes it
  takes from outside, and the events of a run that matter for the image tag: a build
  phase that succeeded for a record, and a record created by a rollback.
\<close>

datatype operation =
    Webhook webhook_env request
  | Trigger string nat string "exn + string option" "exn + string \<times> string" string
  | Rollback string nat string string
  | Cancel string nat string
  | Process worker_env string

datatype event = BuildSucceeded string | RollbackCreated string

definition step :: "operation \<Rightarrow> db \<times> fs \<Rightarrow> (db \<times> fs) \<times> event list" where
  "step a s =
     (case s of (d, f) \<Rightarrow>
        (case a of
           Webhook env req \<Rightarrow> ((snd (POST env req d), f), [])
         | Trigger uid now uuid token latestCommit pid \<Rightarrow>
             ((snd (triggerDeploy uid now uuid token latestCommit pid d), f), [])
         | Rollback uid now uuid i \<Rightarrow>
             (case rollback uid now uuid i d of
                (Inr n, d') \<Rightarrow> ((d', f), [RollbackCreated (deploymentId n)])
              | (Inl e, d') \<Rightarrow> ((d', f), []))
         | Cancel uid now i \<Rightarrow> ((snd (cancel uid now i d), f), [])
         | Process env i \<Rightarrow>
             (snd (processDeployment env i d f),
              (case find_deployment d i of
                 None \<Rightarrow> []
               | Some r \<Rightarrow>
                   (case find_project d (projectId r) of
                      None \<Rightarrow> []
                    | Some p \<Rightarrow> if build_succeeds env r p f then [BuildSucceeded i] else [])))))"

fun run :: "operation list \<Rightarrow> (db \<times> fs) \<times> event list \<Rightarrow> (db \<times> fs) \<times> event list" where
  "run [] c = c"
| "run (a # as) c =
     (case c of (s, evs) \<Rightarrow> (case step a s of (s', ev) \<Rightarrow> run as (s', evs @ ev)))"

definition has_image :: "event list \<Rightarrow> string \<Rightarrow> bool" where
  "has_image evs j = (BuildSucceeded j \<in> set evs \<or> RollbackCreated j \<in> set evs)"

text \<open>
  The invariant of a run: a record has an image tag exactly when its build phase
  succeeded in some run of the orchestrator or a rollback created it, and the events
  are about records of the table.
\<close>

definition tag_invariant :: "(db \<times> fs) \<times> event list \<Rightarrow> bool" where
  "tag_invariant c =
     (case c of ((d, f), evs) \<Rightarrow>
        (\<forall>j. case find_deployment d j of
               None \<Rightarrow> \<not> has_image evs j
             | Some r \<Rightarrow> (imageTag r \<noteq> None) = has_image evs j))"

section \<open>Concrete inputs\<close>

definition example_project :: project where
  "example_project =
     \<lparr> project_id = ''p1'', slug = ''app'', repoFullName = ''octo/app'', branch = ''main'',
       buildCommand = None, port = 3000, envVars = [], nodeAffinity = None,
       cpuLimit = ''500m'', cpuRequest = ''100m'', memoryLimit = ''512Mi'',
       memoryRequest = ''128Mi'', replicas = 1, subdomain = ''app'', customDomain = None,
       webhookSecret = ''s3cret'', userId = ''u1'' \<rparr>"

definition example_user :: user where
  "example_user = \<lparr> user_id = ''u1'', cloudflareToken = Some ''cf'', cloudflareZone = Some ''zone'' \<rparr>"

definition live_deployment :: deployment where
  "live_deployment =
     \<lparr> deploymentId = ''d1'', projectId = ''p1'', commitSha = ''abc1234def'',
       commitMsg = Some ''first'', status = ''live'', logs = None, buildLogs = Some ''ok'',
       imageTag = Some ''registry/app:abc1234'', error = None, createdAt = 1,
       finishedAt = Some 2 \<rparr>"

definition pending_deployment :: deployment where
  "pending_deployment =
     \<lparr> deploymentId = ''d0'', projectId = ''p1'', commitSha = ''abc1234def'',
       commitMsg = Some ''first'', status = ''pending'', logs = None, buildLogs = None,
       imageTag = None, error = None, createdAt = 1, finishedAt = None \<rparr>"

definition example_db :: db where
  "example_db = \<lparr> deployments = [live_deployment], projects = [example_project],
                   users = [example_user] \<rparr>"

definition pending_db :: db where
  "pending_db = \<lparr> deployments = [pending_deployment], projects = [example_project],
                   users = [example_user] \<rparr>"

text \<open>The database after rolling back to \<open>d1\<close>, and the record the rollback created.\<close>

definition rolled_back_db :: db where
  "rolled_back_db = snd (rollback ''u1'' 5 ''d2'' ''d1'' example_db)"

definition rollback_deployment :: deployment where
  "rollback_deployment =
     \<lparr> deploymentId = ''d2'', projectId = ''p1'', commitSha = ''abc1234def'',
       commitMsg = Some ''Rollback to abc1234'', status = ''pending'', logs = None,
       buildLogs = None, imageTag = Some ''registry/app:abc1234'', error = None,
       createdAt = 5, finishedAt = None \<rparr>"

text \<open>A builder whose every step succeeds, one whose download fails, one whose removal fails.\<close>

definition ok_build_env :: build_env where
  "ok_build_env =
     \<lparr> be_randomUUID = ''b1'',
       be_mkdir = (\<lambda>path. None),
       be_downloadRepository = (\<lambda>token owner repo sha. Inr 42),
       be_writeFile = (\<lambda>path. None),
       be_tar = (\<lambda>args cwd. (True, [])),
       be_hasDockerfile = (\<lambda>token owner repo b. Inr True),
       be_run = (\<lambda>command args cwd vars. (True, [])),
       be_JSON_stringify = (\<lambda>v. ''{}''),
       be_rm = (\<lambda>path. None) \<rparr>"

definition failing_build_env :: build_env where
  "failing_build_env =
     ok_build_env\<lparr> be_downloadRepository := (\<lambda>token owner repo sha. Inl (Error ''Not Found'')) \<rparr>"

definition rm_fails_build_env :: build_env where
  "rm_fails_build_env = ok_build_env\<lparr> be_rm := (\<lambda>path. Some (Error ''EACCES'')) \<rparr>"

definition example_options :: BuildOptions where
  "example_options =
     \<lparr> bo_accessToken = ''tok'', bo_owner = ''octo'', bo_repo = Some ''app'',
       bo_branch = ''main'', bo_commitSha = ''abc1234def'', bo_projectSlug = ''app'',
       bo_registryUrl = ''registry'', bo_registryUsername = [], bo_registryPassword = [],
       bo_buildCommand = None \<rparr>"

text \<open>An orchestrator environment in which everything succeeds except the DNS call.\<close>

definition dns_fails_env :: worker_env where
  "dns_fails_env =
     \<lparr> we_clock = 10,
       we_getGitHubAccessToken = (\<lambda>uid. Inr (Some ''tok'')),
       we_REGISTRY_URL = ''registry'', we_REGISTRY_USERNAME = [], we_REGISTRY_PASSWORD = [],
       we_PLATFORM_DOMAIN = ''example.org'', we_INGRESS_CLASS = None, we_INGRESS_IP = None,
       we_build = ok_build_env,
       we_decryptJson = (\<lambda>vars. Inr vars),
       we_up = (\<lambda>config. None),
       we_setupProjectDns = (\<lambda>token zone name ip. Some (Error ''dns down'')) \<rparr>"

definition build_fails_env :: worker_env where
  "build_fails_env = dns_fails_env\<lparr> we_build := failing_build_env \<rparr>"

text \<open>
  A webhook environment whose \<open>JSON.parse\<close> is given on the two bodies used below, and
  two requests without signature header.
\<close>

definition push_payload :: jsval where
  "push_payload =
     JObj [(''ref'', JStr ''refs/heads/main''), (''after'', JStr ''abc1234def''),
           (''repository'', JObj [(''full_name'', JStr ''octo/app'')]),
           (''head_commit'', JObj [(''id'', JStr ''abc1234def''), (''message'', JStr ''fix'')]),
           (''pusher'', JObj [(''name'', JStr ''octo''), (''email'', JStr ''o@example.org'')])]"

definition push_event :: PushEvent where
  "push_event =
     \<lparr> ev_ref = JStr ''refs/heads/main'', ev_after = JStr ''abc1234def'',
       ev_repository_full_name = JStr ''octo/app'',
       ev_head_commit = Some (JStr ''abc1234def'', JStr ''fix''),
       ev_pusher_name = JStr ''octo'', ev_pusher_email = JStr ''o@example.org'' \<rparr>"

definition example_webhook_env :: webhook_env where
  "example_webhook_env =
     \<lparr> JSON_parse = (\<lambda>s. if s = ''{}'' then Inr (JObj [])
                          else if s = ''push'' then Inr push_payload
                          else Inl (Error ''Unexpected token'')),
       hmac_sha256 = (\<lambda>secret payload. [0xAB, 0x01]),
       sql_text = (\<lambda>v. Inr None),
       randomUUID = ''d9'',
       clock = 7 \<rparr>"

definition empty_object_request :: request where
  "empty_object_request =
     \<lparr> req_body = ''{}'', x_github_event = Some ''push'', x_hub_signature_256 = None \<rparr>"

definition unsigned_push_request :: request where
  "unsigned_push_request =
     \<lparr> req_body = ''push'', x_github_event = Some ''push'', x_hub_signature_256 = None \<rparr>"

definition signed_push_request :: request where
  "signed_push_request =
     \<lparr> req_body = ''push'', x_github_event = Some ''push'',
       x_hub_signature_256 = Some ''sha256=ab01'' \<rparr>"

text \<open>The record the signed push, and the manual trigger at the same commit, create.\<close>

definition pushed_deployment :: deployment where
  "pushed_deployment =
     \<lparr> deploymentId = ''d9'', projectId = ''p1'', commitSha = ''abc1234def'',
       commitMsg = Some ''fix'', status = ''pending'', logs = None, buildLogs = None,
       imageTag = None, error = None, createdAt = 7, finishedAt = None \<rparr>"

text \<open>Payloads for the event parser: one without \<open>pusher\<close>, one whose repository has no name.\<close>

definition payload_without_pusher :: jsval where
  "payload_without_pusher =
     JObj [(''ref'', JStr ''refs/heads/main''), (''after'', JStr ''abc1234def''),
           (''repository'', JObj [(''full_name'', JStr ''octo/app'')])]"

definition payload_without_full_name :: jsval where
  "payload_without_full_name =
     JObj [(''ref'', JStr ''refs/heads/main''), (''after'', JStr ''abc1234def''),
           (''repository'', JObj []), (''pusher'', JObj [])]"

text \<open>A run from an empty deployments table: a manual trigger, then the orchestrator.\<close>

definition empty_db :: db where
  "empty_db = \<lparr> deployments = [], projects = [example_project], users = [example_user] \<rparr>"

definition pushed_db :: db where
  "pushed_db = \<lparr> deployments = [pushed_deployment], projects = [example_project],
                  users = [example_user] \<rparr>"

definition example_run :: "operation list" where
  "example_run =
     [Trigger ''u1'' 7 ''d9'' (Inr (Some ''tok'')) (Inr (''abc1234def'', ''fix'')) ''p1'',
      Process dns_fails_env ''d9'']"

text \<open>
  A push whose head commit carries a message of 600 characters, the signed request that
  delivers it, and the record that this push, and the manual trigger at a commit with the
  same message, store.
\<close>

definition long_message :: string where
  "long_message = replicate 600 CHR ''a''"

definition long_push_payload :: jsval where
  "long_push_payload =
     JObj [(''ref'', JStr ''refs/heads/main''), (''after'', JStr ''abc1234def''),
           (''repository'', JObj [(''full_name'', JStr ''octo/app'')]),
           (''head_commit'', JObj [(''id'', JStr ''abc1234def''), (''message'', JStr long_message)]),
           (''pusher'', JObj [(''name'', JStr ''octo''), (''email'', JStr ''o@example.org'')])]"

definition long_push_event :: PushEvent where
  "long_push_event =
     \<lparr> ev_ref = JStr ''refs/heads/main'', ev_after = JStr ''abc1234def'',
       ev_repository_full_name = JStr ''octo/app'',
       ev_head_commit = Some (JStr ''abc1234def'', JStr long_message),
       ev_pusher_name = JStr ''octo'', ev_pusher_email = JStr ''o@example.org'' \<rparr>"

definition long_webhook_env :: webhook_env where
  "long_webhook_env =
     \<lparr> JSON_parse = (\<lambda>s. if s = ''long push'' then Inr long_push_payload
                          else Inl (Error ''Unexpected token'')),
       hmac_sha256 = (\<lambda>secret payload. [0xAB, 0x01]),
       sql_text = (\<lambda>v. Inr None),
       randomUUID = ''d9'',
       clock = 7 \<rparr>"

definition long_push_request :: request where
  "long_push_request =
     \<lparr> req_body = ''long push'', x_github_event = Some ''push'',
       x_hub_signature_256 = Some ''sha256=ab01'' \<rparr>"

definition truncated_deployment :: deployment where
  "truncated_deployment =
     \<lparr> deploymentId = ''d9'', projectId = ''p1'', commitSha = ''abc1234def'',
       commitMsg = Some (replicate 500 CHR ''a''), status = ''pending'', logs = None,
       buildLogs = None, imageTag = None, error = None, createdAt = 7, finishedAt = None \<rparr>"

section \<open>Properties of the signature verifier\<close>

lemma split_on_not_Nil: "split_on c s \<noteq> []"
  by (induction s) (auto split: list.splits)


lemma split_on_append:
  "c \<notin> set p \<Longrightarrow> split_on c (p @ c # s) = p # split_on c s"
  by (induction p) auto

lemma less_16_cases:
  "n < 16 \<Longrightarrow> n \<in> {0, 1, 2, 3, 4, 5, 6, 7, 8, 9, 10, 11, 12, 13, 14, 15 :: nat}"
  by (simp del: One_nat_def) arith

lemma hex_val_hex_digit: "n < 16 \<Longrightarrow> hex_val (hex_digit n) = Some n"
  by (drule less_16_cases) (auto simp: hex_val_def hex_digit_def)


lemma unat_byte_less: "unat (b :: byte) < 256"
  using unsigned_less [of b, where 'a = nat] by simp

lemma unat_byte_div16: "unat (b :: byte) div 16 < 16"
  using unat_byte_less [of b] by simp


lemma buffer_from_hex_encode: "buffer_from_hex (hex_encode bs) = bs"
  by (induction bs) (simp_all add: hex_val_hex_digit unat_byte_div16)



lemma verify_never_throws: "verifyWebhookSignature hmac body signature secret \<noteq> Inl e"
  by (auto simp: verifyWebhookSignature_def Let_def timingSafeEqual_def
      split: option.splits sum.splits)



section \<open>Properties of the resource-quantity parser\<close>

lemma endsWith_last: "endsWith s suf \<Longrightarrow> suf \<noteq> [] \<Longrightarrow> s \<noteq> [] \<and> last s = last suf"
  unfolding endsWith_def
  by (metis append_take_drop_id last_appendR length_0_conv le_zero_eq)

lemma digit_not_other:
  assumes "is_digit c"
  shows "\<not> is_space c" "\<not> is_letter c" "c \<noteq> CHR ''-''" "c \<noteq> CHR ''+''"
        "c \<noteq> CHR ''m''" "c \<noteq> CHR ''n''" "c \<noteq> CHR ''i''"
  using assms by (auto simp: is_digit_def is_space_def is_letter_def Let_def)

lemma takeWhile_all: "list_all P xs \<Longrightarrow> takeWhile P xs = xs"
  by (induction xs) auto

lemma dropWhile_hd: "xs \<noteq> [] \<Longrightarrow> \<not> P (hd xs) \<Longrightarrow> dropWhile P xs = xs"
  by (cases xs) auto

lemma int_string_last_digit: "int_string s \<Longrightarrow> s \<noteq> [] \<and> is_digit (last s)"
  by (cases s) (auto simp: int_string_def Let_def list_all_iff split: if_splits)

lemma int_string_not_endsWith:
  assumes "int_string s" "suf \<noteq> []" "\<not> is_digit (last suf)"
  shows "\<not> endsWith s suf"
  using assms int_string_last_digit [of s] endsWith_last [of s suf] by auto

lemma int_string_no_letter: "int_string s \<Longrightarrow> c \<in> set s \<Longrightarrow> \<not> is_letter c"
  by (cases s) (auto simp: int_string_def Let_def list_all_iff is_letter_def is_digit_def split: if_splits)

subsection \<open>Rounding to a double\<close>

lemma bit_length_bounds:
  "0 < n \<Longrightarrow> 2 ^ (bit_length n - 1) \<le> n \<and> n < 2 ^ bit_length n"
proof (induction n rule: bit_length.induct)
  case (1 n)
  have bl: "bit_length n = Suc (bit_length (n div 2))"
    using 1(2) by (subst bit_length.simps) simp
  show ?case
  proof (cases "n div 2 = 0")
    case True
    then have "n = 1" using 1(2) by linarith
    then show ?thesis by (simp add: bit_length.simps)
  next
    case False
    then have h: "0 < n div 2" using 1(2) by linarith
    then have ih: "2 ^ (bit_length (n div 2) - 1) \<le> n div 2"
      "n div 2 < 2 ^ bit_length (n div 2)"
      using 1 by auto
    have pos: "0 < bit_length (n div 2)" using h by (subst bit_length.simps) simp
    then obtain m where m: "bit_length (n div 2) = Suc m"
      by (cases "bit_length (n div 2)") auto
    have "(2::int) ^ bit_length (n div 2) = 2 * 2 ^ (bit_length (n div 2) - 1)"
      by (simp add: m)
    then have "(2::int) ^ bit_length (n div 2) \<le> 2 * (n div 2)" using ih(1) by simp
    then have a: "(2::int) ^ (bit_length n - 1) \<le> n" unfolding bl by simp
    have "n < 2 * 2 ^ bit_length (n div 2)" using ih(2) by linarith
    then show ?thesis using a bl by simp
  qed
qed

lemma round_half_even_int [simp]: "round_half_even (of_int z) = z"
  by (simp add: round_half_even_def)

lemma round_half_even_nonneg: "0 \<le> x \<Longrightarrow> 0 \<le> round_half_even x"
proof -
  assume "0 \<le> x"
  then have "0 \<le> \<lfloor>x\<rfloor>" by simp
  then show ?thesis by (simp add: round_half_even_def Let_def)
qed

lemma pow2_pos: "0 < pow2 e"
  by (simp add: pow2_def)

text \<open>Integers of magnitude up to \<open>2^53\<close> are doubles.\<close>

lemma to_double_int:
  fixes n :: int
  assumes "\<bar>n\<bar> \<le> 2 ^ 53"
  shows "to_double (of_int n) = Num (of_int n)"
proof (cases "n = 0")
  case True
  then show ?thesis by (simp add: to_double_def)
next
  case False
  define A where "A = \<bar>n\<bar>"
  have Apos: "0 < A" using False by (simp add: A_def)
  have Ale: "A \<le> 2 ^ 53" using assms by (simp add: A_def)
  have a: "\<bar>(of_int n :: rat)\<bar> = of_int A" by (simp add: A_def)
  define k where "k = bit_length A - 1"
  have kb: "2 ^ k \<le> A" using bit_length_bounds [OF Apos] by (simp add: k_def)
  have blpos: "0 < bit_length A" using Apos by (subst bit_length.simps) simp
  have one: "(1::rat) \<le> of_int A" using Apos by simp
  have ex: "exponent (of_int A) = int k"
    using one blpos by (simp add: exponent_def k_def)
  have k53: "k \<le> 53"
  proof (rule ccontr)
    assume "\<not> k \<le> 53"
    then have "54 \<le> k" by simp
    then have "(2::int) ^ 54 \<le> 2 ^ k" by (rule power_increasing) simp
    then show False using kb Ale by simp
  qed
  have v: "of_int (round_half_even (of_int A / pow2 (int k - 52))) * pow2 (int k - 52)
             = (of_int A :: rat)"
  proof (cases "k \<le> 52")
    case True
    then have e: "int k - 52 = - int (52 - k)" by simp
    have nk: "nat (52 - int k) = 52 - k" using True by linarith
    have p: "pow2 (- int (52 - k)) = 1 / 2 ^ (52 - k)"
      by (simp add: pow2_def nk)
    have q: "(of_int A :: rat) / (1 / 2 ^ (52 - k)) = of_int (A * 2 ^ (52 - k))" by simp
    show ?thesis unfolding e p q round_half_even_int by simp
  next
    case False
    then have k: "k = 53" using k53 by simp
    then have A: "A = 2 ^ 53" using kb Ale by simp
    have q: "(of_int A :: rat) / pow2 (int k - 52) = of_int (2 ^ 52)"
      by (simp add: A k pow2_def)
    show ?thesis unfolding q round_half_even_int by (simp add: A k pow2_def)
  qed
  have lt: "(of_int A :: rat) < 2 ^ 1024"
  proof -
    have "(of_int A :: rat) \<le> of_int (2 ^ 53)" using Ale by (simp only: of_int_le_iff)
    also have "\<dots> < 2 ^ 1024" by simp
    finally show ?thesis .
  qed
  have nz: "(of_int n :: rat) \<noteq> 0" using False by simp
  show ?thesis
    using lt
    by (simp add: to_double_def nz a ex Let_def v) (auto simp: A_def)
qed

text \<open>A negative number rounds to a double that is not positive.\<close>

lemma to_double_neg:
  assumes "r < 0"
  shows "to_double r = NegInf \<or> (\<exists>q. to_double r = Num q \<and> q \<le> 0)"
proof -
  define e where "e = max (exponent \<bar>r\<bar> - 52) (- 1074)"
  define v where "v = (of_int (round_half_even (\<bar>r\<bar> / pow2 e)) * pow2 e :: rat)"
  have "0 \<le> \<bar>r\<bar> / pow2 e" using pow2_pos [of e] by simp
  then have "0 \<le> round_half_even (\<bar>r\<bar> / pow2 e)" by (rule round_half_even_nonneg)
  then have v0: "0 \<le> v" using pow2_pos [of e] by (simp add: v_def)
  have "to_double r = (if 2 ^ 1024 \<le> v then NegInf else Num (- v))"
    using assms by (simp add: to_double_def Let_def e_def v_def)
  then show ?thesis using v0 by auto
qed

text \<open>
  Past \<open>2^53\<close> not every integer is a double: \<open>2^53 + 1\<close> lies halfway between two doubles
  and rounds to the even one.
\<close>

lemma to_double_rounds: "to_double (- 9007199254740993) = Num (- 9007199254740992)"
  by code_simp

lemma to_double_product: "to_double (- 9007199254740992000) = Num (- 9007199254740992000)"
  by code_simp

subsection \<open>Integer strings\<close>

lemma parseInt_int_string:
  "int_string s \<Longrightarrow> parseInt s = to_double (of_int (int_string_value s))"
proof -
  assume a: "int_string s"
  then obtain c r where s: "s = c # r" by (cases s) (auto simp: int_string_def)
  have nsp: "\<not> is_space c"
    using a s by (auto simp: int_string_def is_space_def is_digit_def split: if_splits)
  have dw: "dropWhile is_space s = s" using s nsp by simp
  show ?thesis
  proof (cases "c = CHR ''-'' \<or> c = CHR ''+''")
    case True
    then have "r \<noteq> []" "list_all is_digit r" using a s by (auto simp: int_string_def)
    then show ?thesis using True s nsp
      by (auto simp: parseInt_def Let_def takeWhile_all int_string_value_def)
  next
    case False
    then have "list_all is_digit s" using a s by (auto simp: int_string_def)
    then show ?thesis using False s nsp
      by (auto simp: parseInt_def Let_def takeWhile_all int_string_value_def)
  qed
qed

text \<open>
  An integer string below the threshold takes the branch \<open>numValue * 1000\<close>, whatever its
  magnitude.
\<close>

lemma prv_int_string:
  assumes "int_string s" "int_string_value s < 1000"
  shows "parseResourceValue s = jmul (to_double (of_int (int_string_value s))) 1000"
proof -
  have ne: "s \<noteq> []" using assms(1) int_string_last_digit by blast
  have e: "\<not> endsWith s ''m''" "\<not> endsWith s ''n''" "\<not> endsWith s ''Ki''"
       "\<not> endsWith s ''Mi''" "\<not> endsWith s ''Gi''" "\<not> endsWith s ''Ti''"
    by (rule int_string_not_endsWith [OF assms(1)]; simp add: is_digit_def)+
  have l: "\<not> (\<exists>c \<in> set s. is_letter c)" using int_string_no_letter [OF assms(1)] by blast
  define x where "x = to_double (of_int (int_string_value s))"
  have x: "\<not> isNaN x \<and> jless x 1000"
  proof (cases "int_string_value s < 0")
    case True
    then have "(of_int (int_string_value s) :: rat) < 0" by simp
    from to_double_neg [OF this] show ?thesis
      by (auto simp: x_def isNaN_def jless_def)
  next
    case False
    then have "\<bar>int_string_value s\<bar> \<le> 2 ^ 53" using assms(2) by simp
    then have "x = Num (of_int (int_string_value s))"
      unfolding x_def by (rule to_double_int)
    moreover have "(of_int (int_string_value s) :: rat) < 1000"
      using assms(2) by (metis of_int_less_numeral_iff)
    ultimately show ?thesis by (simp add: isNaN_def jless_def)
  qed
  then have x': "\<not> isNaN (to_double (of_int (int_string_value s)))"
    "jless (to_double (of_int (int_string_value s))) 1000"
    by (simp_all add: x_def)
  show ?thesis
    using ne e l x'
    by (simp add: parseResourceValue_def parseInt_int_string [OF assms(1)] Let_def)
qed

text \<open>Where the product stays within \<open>2^53\<close> in magnitude it is exact.\<close>

lemma prv_small:
  assumes "int_string s" "int_string_value s < 1000"
    "- (2 ^ 53) \<le> int_string_value s * 1000"
  shows "parseResourceValue s = Num (of_int (int_string_value s * 1000))"
proof -
  define v where "v = int_string_value s"
  have b1: "\<bar>v\<bar> \<le> 2 ^ 53" using assms(2,3) by (simp add: v_def)
  have b2: "\<bar>v * 1000\<bar> \<le> 2 ^ 53" using assms(2,3) by (simp add: v_def)
  have p: "(of_int v :: rat) * 1000 = of_int (v * 1000)" by simp
  have "parseResourceValue s = jmul (to_double (of_int v)) 1000"
    unfolding v_def by (rule prv_int_string [OF assms(1,2)])
  also have "\<dots> = to_double (of_int v * 1000)"
    by (simp only: to_double_int [OF b1] jmul_def jsnum.case)
  also have "\<dots> = Num (of_int (v * 1000))"
    unfolding p by (rule to_double_int [OF b2])
  finally show ?thesis by (simp only: v_def)
qed

text \<open>
  Beyond that range the doubles round: the digits \<open>-9007199254740993\<close> denote
  \<open>-(2^53 + 1)\<close>, which \<open>parseInt\<close> returns as \<open>-2^53\<close>, so the result is \<open>-2^53 * 1000\<close>.
\<close>

lemma prv_rounds:
  "parseResourceValue ''-9007199254740993'' = Num (- 9007199254740992000)"
proof -
  have i: "int_string ''-9007199254740993''" by (simp add: int_string_def is_digit_def)
  have v: "int_string_value ''-9007199254740993'' = - 9007199254740993"
    by (simp add: int_string_value_def digits_value_def digit_val_def)
  have "parseResourceValue ''-9007199254740993'' = jmul (to_double (- 9007199254740993)) 1000"
    using prv_int_string [OF i] unfolding v by simp
  then show ?thesis
    by (simp add: to_double_rounds jmul_def to_double_product)
qed

text \<open>
  A quotient that is not a double is rounded as well: \<open>"1n"\<close> is the double nearest to
  \<open>10^-6\<close>, whose significand is \<open>4722366482869645\<close> at the exponent \<open>-72\<close>.
\<close>

lemma to_double_millionth:
  "to_double (1 / 1000000) = Num (4722366482869645 / 4722366482869645213696)"
  by code_simp

lemma prv_nanocores:
  "parseResourceValue ''1n'' = Num (4722366482869645 / 4722366482869645213696)"
proof -
  have "to_double 1 = Num 1" using to_double_int [of 1] by simp
  then show ?thesis
    by (simp add: parseResourceValue_def endsWith_def parseInt_def is_space_def is_digit_def
        digits_value_def digit_val_def jdiv_def to_double_millionth)
qed

lemma digit_char_is_digit: "n < 10 \<Longrightarrow> is_digit (digit_char n)"
  by (simp add: is_digit_def digit_char_def)
lemma digit_val_digit_char: "n < 10 \<Longrightarrow> digit_val (digit_char n) = n"
  by (simp add: digit_val_def digit_char_def)

lemma decimal_digits: "list_all is_digit (decimal n) \<and> decimal n \<noteq> []"
  by (induction n rule: decimal.induct) (subst decimal.simps, subst (2) decimal.simps, simp add: digit_char_is_digit)

lemma digits_value_snoc: "digits_value (ds @ [c]) = 10 * digits_value ds + digit_val c"
  by (simp add: digits_value_def)

lemma digits_value_decimal: "digits_value (decimal n) = n"
proof (induction n rule: decimal.induct)
  case (1 n)
  show ?case
  proof (cases "n < 10")
    case True
    then show ?thesis by (subst decimal.simps) (simp add: digits_value_def digit_val_digit_char)
  next
    case False
    then show ?thesis using 1
      by (subst decimal.simps) (simp add: digits_value_snoc digit_val_digit_char)
  qed
qed

lemma int_string_decimal: "int_string (decimal n) \<and> int_string_value (decimal n) = int n"
proof -
  have d: "list_all is_digit (decimal n)" "decimal n \<noteq> []" using decimal_digits by auto
  then have "is_digit (hd (decimal n))" by (cases "decimal n") auto
  then have "hd (decimal n) \<noteq> CHR ''-''" "hd (decimal n) \<noteq> CHR ''+''"
    using digit_not_other by auto
  then show ?thesis using d
    by (simp add: int_string_def int_string_value_def digits_value_decimal)
qed

subsection \<open>The quantities of the specification\<close>

lemma to_double_500: "to_double 500 = Num 500"
  using to_double_int [of 500] by simp

lemma to_double_512: "to_double 512 = Num 512"
  using to_double_int [of 512] by simp

lemma to_double_512Ki: "to_double 524288 = Num 524288"
  using to_double_int [of 524288] by simp

lemma to_double_512Mi: "to_double 536870912 = Num 536870912"
  using to_double_int [of 536870912] by simp

lemma parse_500m: "parseResourceValue ''500m'' = Num 500"
  by (simp add: parseResourceValue_def endsWith_def parseInt_def is_space_def is_digit_def
      digits_value_def digit_val_def to_double_500)

lemma parse_512Mi: "parseResourceValue ''512Mi'' = Num (512 * 1024 * 1024)"
  by (simp add: parseResourceValue_def endsWith_def parseInt_def is_space_def is_digit_def
      digits_value_def digit_val_def jmul_def to_double_512 to_double_512Ki to_double_512Mi)

text \<open>
  C9. \<open>"500m"\<close> parses to 500 millicores and \<open>"512Mi"\<close> to \<open>512 * 1024 * 1024\<close> bytes. Every
  integer string without unit whose value is below the threshold 1000 parses to the double
  of that integer multiplied, as a double, by 1000; and where the product is at least
  \<open>-2^53\<close>, the range in which doubles hold every integer exactly, the result is exactly
  that integer times 1000.
\<close>

theorem parseResourceValue_quantities:
  "parseResourceValue ''500m'' = Num 500
   \<and> parseResourceValue ''512Mi'' = Num (512 * 1024 * 1024)
   \<and> (int_string s \<and> int_string_value s < 1000 \<longrightarrow>
        parseResourceValue s = jmul (to_double (of_int (int_string_value s))) 1000)
   \<and> (int_string s \<and> int_string_value s < 1000 \<and> - (2 ^ 53) \<le> int_string_value s * 1000 \<longrightarrow>
        parseResourceValue s = Num (of_int (int_string_value s * 1000)))"
  using parse_500m parse_512Mi prv_int_string prv_small by blast

theorem parseResourceValue_quantities_witness:
  "int_string ''-7'' \<and> int_string_value ''-7'' < 1000
   \<and> - (2 ^ 53) \<le> int_string_value ''-7'' * 1000
   \<and> parseResourceValue ''-7'' = Num (- 7000)"
proof -
  have i: "int_string ''-7''" by (simp add: int_string_def is_digit_def)
  have v: "int_string_value ''-7'' = - 7"
    by (simp add: int_string_value_def digits_value_def digit_val_def)
  have h: "int_string ''-7'' \<and> int_string_value ''-7'' < 1000
           \<and> - (2 ^ 53) \<le> int_string_value ''-7'' * 1000"
    by (simp add: i v)
  from parseResourceValue_quantities [of "''-7''"] h
  have "parseResourceValue ''-7'' = Num (of_int (int_string_value ''-7'' * 1000))"
    by blast
  then have "parseResourceValue ''-7'' = Num (- 7000)" by (simp add: v)
  then show ?thesis using h by blast
qed

section \<open>Properties of the database operations\<close>

lemma find_map_upd:
  assumes "\<And>x. key (g x) = key x"
  shows "find (\<lambda>r. key r = j) (map (\<lambda>r. if key r = i then g r else r) xs)
         = (if j = i then map_option g (find (\<lambda>r. key r = j) xs)
            else find (\<lambda>r. key r = j) xs)"
  using assms by (induction xs) auto

lemma find_deployment_update:
  assumes "\<And>x. deploymentId (g x) = deploymentId x"
  shows "find_deployment (update_deployment d i g) j
         = (if j = i then map_option g (find_deployment d j) else find_deployment d j)"
  unfolding find_deployment_def update_deployment_def
  using find_map_upd [of deploymentId g j i "deployments d"] assms by simp

lemma find_project_update [simp]: "find_project (update_deployment d i g) j = find_project d j"
  by (simp add: find_project_def update_deployment_def)

lemma find_user_update [simp]: "find_user (update_deployment d i g) j = find_user d j"
  by (simp add: find_user_def update_deployment_def)

lemma find_deployment_id: "find_deployment d i = Some r \<Longrightarrow> deploymentId r = i"
  unfolding find_deployment_def by (auto simp: find_Some_iff)

lemma insert_deployment_appends:
  "insert_deployment d r = Inr d' \<Longrightarrow> d' = d\<lparr>deployments := deployments d @ [r]\<rparr>"
  by (auto simp: insert_deployment_def split: if_splits)

section \<open>Properties of cancel and rollback\<close>

text \<open>
  C3. For a deployment of the caller, cancel in status \<open>pending\<close> or \<open>building\<close> returns
  and stores the record with status \<open>failed\<close>, error text \<open>Cancelled by user\<close> and the
  completion time, and leaves every other record alone; in any other status it is
  rejected with \<open>BAD_REQUEST\<close> and the database is returned unchanged.
\<close>

theorem cancel_pending_or_building:
  assumes "find_deployment d i = Some r"
    and "find_project d (projectId r) = Some p"
    and "userId p = uid"
  shows "(status r = ''pending'' \<or> status r = ''building'' \<longrightarrow>
            fst (cancel uid now i d)
              = Inr (r\<lparr>status := ''failed'', error := Some ''Cancelled by user'',
                       finishedAt := Some now\<rparr>)
            \<and> find_deployment (snd (cancel uid now i d)) i
              = Some (r\<lparr>status := ''failed'', error := Some ''Cancelled by user'',
                        finishedAt := Some now\<rparr>)
            \<and> (\<forall>j. j \<noteq> i \<longrightarrow>
                  find_deployment (snd (cancel uid now i d)) j = find_deployment d j))
       \<and> (status r \<noteq> ''pending'' \<and> status r \<noteq> ''building'' \<longrightarrow>
            cancel uid now i d
              = (Inl (BAD_REQUEST ''Cannot cancel deployment in current state''), d))"
  using assms by (auto simp: cancel_def cancelled_def find_deployment_update)

lemma example_finds:
  "find_deployment pending_db ''d0'' = Some pending_deployment"
  "find_project pending_db (projectId pending_deployment) = Some example_project"
  "find_user pending_db (userId example_project) = Some example_user"
  "find_deployment example_db ''d1'' = Some live_deployment"
  "find_project example_db (projectId live_deployment) = Some example_project"
  "userId example_project = ''u1''"
  by (simp_all add: find_deployment_def find_project_def find_user_def pending_db_def
      example_db_def pending_deployment_def live_deployment_def example_project_def
      example_user_def)

theorem cancel_pending_or_building_witness:
  "fst (cancel ''u1'' 9 ''d0'' pending_db)
     = Inr (pending_deployment\<lparr>status := ''failed'', error := Some ''Cancelled by user'',
              finishedAt := Some 9\<rparr>)
   \<and> cancel ''u1'' 9 ''d1'' example_db
     = (Inl (BAD_REQUEST ''Cannot cancel deployment in current state''), example_db)"
proof -
  have s0: "status pending_deployment = ''pending''" by (simp add: pending_deployment_def)
  have s1: "status live_deployment \<noteq> ''pending'' \<and> status live_deployment \<noteq> ''building''"
    by (simp add: live_deployment_def)
  show ?thesis
    using cancel_pending_or_building [OF example_finds(1) example_finds(2) example_finds(6), of 9]
      cancel_pending_or_building [OF example_finds(4) example_finds(5) example_finds(6), of 9]
      s0 s1
    by blast
qed

lemma rollback_creates:
  assumes "find_deployment d i = Some r"
    and "find_project d (projectId r) = Some p"
    and "userId p = uid"
    and "status r = ''live''"
    and "imageTag r = Some tag" "tag \<noteq> []"
    and "\<forall>x \<in> set (deployments d). deploymentId x \<noteq> uuid"
  shows "rollback uid now uuid i d
         = (Inr (new_deployment uuid now (projectId r) (commitSha r)
                   (Some (''Rollback to '' @ take 7 (commitSha r))) ''pending'' (Some tag)),
            d\<lparr>deployments := deployments d @
                 [new_deployment uuid now (projectId r) (commitSha r)
                    (Some (''Rollback to '' @ take 7 (commitSha r))) ''pending'' (Some tag)]\<rparr>)"
  using assms
  by (auto simp: rollback_def nonempty_def insert_deployment_def Let_def new_deployment_def)

lemma rollback_rejects:
  assumes "find_deployment d i = Some r"
    and "find_project d (projectId r) = Some p"
    and "userId p = uid"
    and "status r \<noteq> ''live'' \<or> imageTag r = None \<or> imageTag r = Some []"
  shows "rollback uid now uuid i d
         = (Inl (BAD_REQUEST ''Can only rollback to successful deployments with an image''), d)"
  using assms by (auto simp: rollback_def nonempty_def)

lemma rollback_example:
  "rollback ''u1'' 5 ''d2'' ''d1'' example_db
     = (Inr rollback_deployment,
        example_db\<lparr>deployments := [live_deployment, rollback_deployment]\<rparr>)"
  by (simp add: rollback_def find_deployment_def find_project_def example_db_def
      live_deployment_def example_project_def nonempty_def insert_deployment_def
      new_deployment_def rollback_deployment_def Let_def)

lemma rolled_back_db_eq:
  "rolled_back_db = example_db\<lparr>deployments := [live_deployment, rollback_deployment]\<rparr>"
  by (simp add: rolled_back_db_def rollback_example)

section \<open>Properties of the image builder\<close>

lemma buildProject_imageTag: "br_imageTag (fst (buildProject env options f)) = imageTag_of options"
  by (auto simp: buildProject_def split: prod.splits sum.splits)

lemma buildProject_fs:
  "snd (buildProject env options f) = cleanup env (snd (snd (build_try env options f)))"
  by (auto simp: buildProject_def split: prod.splits sum.splits)

lemma build_try_fs:
  "snd (snd (build_try env options f))
     = (if be_mkdir env (workDir_of env) = None
        then insert (workDir_of env) (insert ''/tmp/autotunchi-builds'' f) else f)"
  by (auto simp: build_try_def Let_def split: option.splits sum.splits)

lemma workDir_not_parent: "workDir_of env \<noteq> ''/tmp/autotunchi-builds''"
  by (simp add: workDir_of_def)

text \<open>
  C7, as amended.  On every exit path \<open>buildProject\<close> attempts the removal of the working
  directory before it returns.  When the removal does not throw, the directory does not
  exist afterwards, whatever the outcome of the build.  When the removal throws, the
  error is ignored, and a directory that was created is still there when \<open>buildProject\<close>
  returns.
\<close>

theorem buildProject_cleanup:
  "(be_rm env (workDir_of env) = None \<longrightarrow>
      workDir_of env \<notin> snd (buildProject env options f))
   \<and> (be_rm env (workDir_of env) \<noteq> None \<and> be_mkdir env (workDir_of env) = None \<longrightarrow>
      workDir_of env \<in> snd (buildProject env options f))"
  by (auto simp: buildProject_fs build_try_fs cleanup_def split: option.splits)

theorem buildProject_cleanup_witness:
  "be_rm ok_build_env (workDir_of ok_build_env) = None
   \<and> workDir_of ok_build_env \<notin> snd (buildProject ok_build_env example_options {})
   \<and> be_rm rm_fails_build_env (workDir_of rm_fails_build_env) \<noteq> None
   \<and> be_mkdir rm_fails_build_env (workDir_of rm_fails_build_env) = None
   \<and> workDir_of rm_fails_build_env \<in> snd (buildProject rm_fails_build_env example_options {})"
proof -
  have a: "be_rm ok_build_env (workDir_of ok_build_env) = None"
    by (simp add: ok_build_env_def)
  have b: "be_rm rm_fails_build_env (workDir_of rm_fails_build_env) \<noteq> None"
    "be_mkdir rm_fails_build_env (workDir_of rm_fails_build_env) = None"
    by (simp_all add: rm_fails_build_env_def ok_build_env_def)
  show ?thesis
    using a b buildProject_cleanup [of ok_build_env example_options "{}"]
      buildProject_cleanup [of rm_fails_build_env example_options "{}"]
    by blast
qed

text \<open>
  C7 as stated fails: with a removal that throws, the build below succeeds and the
  working directory exists when \<open>buildProject\<close> has returned.
\<close>

theorem workDir_survives_failed_removal:
  "br_success (fst (buildProject rm_fails_build_env example_options {}))
   \<and> ''/tmp/autotunchi-builds/b1'' \<in> snd (buildProject rm_fails_build_env example_options {})
   \<and> workDir_of rm_fails_build_env = ''/tmp/autotunchi-builds/b1''"
  by (simp add: buildProject_def build_try_def cleanup_def workDir_of_def rm_fails_build_env_def
      ok_build_env_def example_options_def extractTarball_def buildWithDockerfile_def Let_def)

section \<open>Properties of the event parser\<close>

text \<open>
  C8 fails on the code.  The first payload has \<open>ref\<close>, \<open>after\<close> and
  \<open>repository.full_name\<close> but no \<open>pusher\<close>: the parser throws a \<open>TypeError\<close> instead of
  returning the event.  The second has a repository without \<open>full_name\<close>: the parser
  returns an event whose repository name is \<open>undefined\<close> instead of \<open>null\<close>.
\<close>

theorem parsePushEvent_not_total:
  "required_fields_present payload_without_pusher
   \<and> parsePushEvent payload_without_pusher
       = Inl (Error ''Cannot read properties of undefined (reading name)'')
   \<and> \<not> required_fields_present payload_without_full_name
   \<and> parsePushEvent payload_without_full_name
       = Inr (Some \<lparr> ev_ref = JStr ''refs/heads/main'', ev_after = JStr ''abc1234def'',
                     ev_repository_full_name = JUndefined, ev_head_commit = None,
                     ev_pusher_name = JUndefined, ev_pusher_email = JUndefined \<rparr>)"
  by (simp add: required_fields_present_def present_def parsePushEvent_def bindE_def
      payload_without_pusher_def payload_without_full_name_def)

theorem parsePushEvent_not_total_witness:
  "(\<exists>e. parsePushEvent payload_without_pusher = Inl e)
   \<and> parsePushEvent payload_without_full_name \<noteq> Inr None"
  using parsePushEvent_not_total by simp

lemma parsePushEvent_null_on_missing_top_field:
  "\<not> truthy payload \<or> \<not> typeof_object payload \<Longrightarrow> parsePushEvent payload = Inr None"
  by (auto simp: parsePushEvent_def)

section \<open>Properties of the orchestrator\<close>

lemma imageTag_of_build_options: "imageTag_of (build_options env r p tok) = built_tag env r p"
  by (simp add: imageTag_of_def build_options_def built_tag_def Let_def)

lemma buildProject_tag:
  "buildProject (we_build env) (build_options env r p tok) f = (br, f') \<Longrightarrow>
     br_imageTag br = built_tag env r p"
  using buildProject_imageTag [of "we_build env" "build_options env r p tok" f]
  by (simp add: imageTag_of_build_options)

lemma dns_step_Some_user: "dns_step env p (Some u) = None"
  by (auto simp: dns_step_def Let_def split: option.splits prod.splits)

lemma build_options_dns:
  "build_options (env\<lparr>we_setupProjectDns := g\<rparr>) r p tok = build_options env r p tok"
  by (simp add: build_options_def)

lemma deployment_config_dns:
  "deployment_config (env\<lparr>we_setupProjectDns := g\<rparr>) p tag vars
     = deployment_config env p tag vars"
  by (simp add: deployment_config_def)

lemma built_tag_dns: "built_tag (env\<lparr>we_setupProjectDns := g\<rparr>) r p = built_tag env r p"
  by (simp add: built_tag_def)

lemma build_succeeds_dns:
  "build_succeeds (env\<lparr>we_setupProjectDns := g\<rparr>) r p f = build_succeeds env r p f"
  by (simp add: build_succeeds_def build_options_dns split: sum.splits option.splits)

lemma provisioning_succeeds_dns:
  "provisioning_succeeds (env\<lparr>we_setupProjectDns := g\<rparr>) r p = provisioning_succeeds env r p"
  by (simp add: provisioning_succeeds_def deployment_config_dns built_tag_dns split: sum.splits)

text \<open>
  After a run, the image tag of the record is the builder's tag when the build phase
  succeeded and is what it was before otherwise; the tags of the other records are what
  they were.
\<close>

lemma process_find:
  assumes fd: "find_deployment d i = Some r" and fp: "find_project d (projectId r) = Some p"
  shows "map_option imageTag (find_deployment (db_after env i d f) j)
         = (if j = i
            then Some (if build_succeeds env r p f then Some (built_tag env r p)
                       else imageTag r)
            else map_option imageTag (find_deployment d j))"
proof -
  have id: "deploymentId r = i" using fd by (rule find_deployment_id)
  note defs = db_after_def processDeployment_def pipeline_def Let_def build_succeeds_def
    find_deployment_update fd fp id
  show ?thesis
  proof (cases "we_getGitHubAccessToken env (userId p)")
    case (Inl e)
    then show ?thesis by (auto simp: defs)
  next
    case tk: (Inr t)
    show ?thesis
    proof (cases "nonempty t")
      case None
      then show ?thesis using tk by (auto simp: defs)
    next
      case ne: (Some tok)
      obtain br f' where bp: "buildProject (we_build env) (build_options env r p tok) f = (br, f')"
        by (cases "buildProject (we_build env) (build_options env r p tok) f") auto
      note tg = buildProject_tag [OF bp]
      show ?thesis
      proof (cases "br_success br")
        case False
        then show ?thesis using tk ne bp by (auto simp: defs)
      next
        case bs: True
        show ?thesis
        proof (cases "we_decryptJson env (envVars p)")
          case (Inl e)
          then show ?thesis using tk ne bp bs tg by (auto simp: defs)
        next
          case dj: (Inr vars)
          show ?thesis
          proof (cases "dr_success (deployProject (we_up env)
                          (deployment_config env p (built_tag env r p) vars))")
            case False
            then show ?thesis using tk ne bp bs tg dj by (auto simp: defs)
          next
            case ds: True
            show ?thesis
            proof (cases "dns_step env p (find_user d (userId p))")
              case None
              then show ?thesis using tk ne bp bs tg dj ds by (auto simp: defs)
            next
              case (Some e)
              then show ?thesis using tk ne bp bs tg dj ds by (auto simp: defs)
            qed
          qed
        qed
      qed
    qed
  qed
qed

lemma process_imageTag:
  assumes fd: "find_deployment d i = Some r" and fp: "find_project d (projectId r) = Some p"
  shows "map_option imageTag (find_deployment (db_after env i d f) i)
         = Some (if build_succeeds env r p f then Some (built_tag env r p) else imageTag r)"
  using process_find [OF fd fp, of env f i] by simp

lemma process_live:
  assumes fd: "find_deployment d i = Some r" and fp: "find_project d (projectId r) = Some p"
    and fu: "find_user d (userId p) = Some u"
    and b: "build_succeeds env r p f" and pv: "provisioning_succeeds env r p"
  shows "fst (processDeployment env i d f) = None \<and>
         (\<exists>r'. find_deployment (db_after env i d f) i = Some r' \<and> status r' = ''live'' \<and>
               finishedAt r' = Some (we_clock env) \<and> error r' = error r \<and>
               imageTag r' = Some (built_tag env r p))"
proof -
  have id: "deploymentId r = i" using fd by (rule find_deployment_id)
  from b obtain t tok
    where tk: "we_getGitHubAccessToken env (userId p) = Inr t" "nonempty t = Some tok"
      and bs: "br_success (fst (buildProject (we_build env) (build_options env r p tok) f))"
    by (auto simp: build_succeeds_def split: sum.splits option.splits)
  obtain br f' where bp: "buildProject (we_build env) (build_options env r p tok) f = (br, f')"
    by (cases "buildProject (we_build env) (build_options env r p tok) f") auto
  from pv obtain vars where dj: "we_decryptJson env (envVars p) = Inr vars"
    and ds: "dr_success (deployProject (we_up env)
               (deployment_config env p (built_tag env r p) vars))"
    by (auto simp: provisioning_succeeds_def split: sum.splits)
  note tg = buildProject_tag [OF bp]
  show ?thesis using bs
    by (simp add: db_after_def processDeployment_def pipeline_def Let_def
        find_deployment_update fd fp fu id tk bp dj ds tg dns_step_Some_user)
qed

text \<open>
  C5. In a run whose build and provisioning succeed, whatever the DNS call does (\<open>dns\<close> is
  any behaviour of \<open>setupProjectDns\<close>, throwing included), the record ends with status
  \<open>live\<close> and its completion time, and its error field is what it was.
\<close>

theorem dns_failure_keeps_deployment_live:
  assumes "find_deployment d i = Some r"
    and "find_project d (projectId r) = Some p"
    and "find_user d (userId p) = Some u"
    and "build_succeeds env r p f"
    and "provisioning_succeeds env r p"
  shows "fst (processDeployment (env\<lparr>we_setupProjectDns := dns\<rparr>) i d f) = None \<and>
         (\<exists>r'. find_deployment (db_after (env\<lparr>we_setupProjectDns := dns\<rparr>) i d f) i = Some r' \<and>
               status r' = ''live'' \<and> finishedAt r' = Some (we_clock env) \<and>
               error r' = error r)"
  using process_live [OF assms(1) assms(2) assms(3), of "env\<lparr>we_setupProjectDns := dns\<rparr>" f]
    assms(4) assms(5)
  by (auto simp: build_succeeds_dns provisioning_succeeds_dns)

lemma ok_build_succeeds:
  "br_success (fst (buildProject ok_build_env options f))"
  by (simp add: buildProject_def build_try_def ok_build_env_def extractTarball_def
      buildWithDockerfile_def Let_def split: prod.splits)

lemma dns_fails_env_succeeds:
  "build_succeeds dns_fails_env pending_deployment example_project {}"
  "provisioning_succeeds dns_fails_env pending_deployment example_project"
  using ok_build_succeeds
  by (simp_all add: build_succeeds_def provisioning_succeeds_def dns_fails_env_def
      nonempty_def deployProject_def)

theorem dns_failure_keeps_deployment_live_witness:
  "we_setupProjectDns dns_fails_env ''cf'' ''zone'' ''app.example.org'' ''127.0.0.1''
     = Some (Error ''dns down'')
   \<and> fst (processDeployment dns_fails_env ''d0'' pending_db {}) = None
   \<and> (\<exists>r'. find_deployment (db_after dns_fails_env ''d0'' pending_db {}) ''d0'' = Some r' \<and>
            status r' = ''live'' \<and> finishedAt r' = Some 10 \<and> error r' = None)"
proof -
  have e: "dns_fails_env\<lparr>we_setupProjectDns := (\<lambda>token zone name ip. Some (Error ''dns down''))\<rparr>
           = dns_fails_env"
    by (simp add: dns_fails_env_def)
  have c: "we_clock dns_fails_env = 10" "error pending_deployment = None"
    by (simp_all add: dns_fails_env_def pending_deployment_def)
  have s: "we_setupProjectDns dns_fails_env ''cf'' ''zone'' ''app.example.org'' ''127.0.0.1''
     = Some (Error ''dns down'')"
    by (simp add: dns_fails_env_def)
  show ?thesis
    using dns_failure_keeps_deployment_live [OF example_finds(1) example_finds(2)
        example_finds(3) dns_fails_env_succeeds,
        of "\<lambda>token zone name ip. Some (Error ''dns down'')"]
    unfolding e c using s by simp
qed

lemma failing_build_result:
  "buildProject failing_build_env options f
     = (\<lparr> br_success = False, br_imageTag = imageTag_of options,
          br_logs = ''=== Downloading source ==='' @ nl @ nl @ ''=== Error ==='' @ nl @
                    ''Not Found'' @ nl,
          br_error = Some ''Not Found'' \<rparr>,
        insert ''/tmp/autotunchi-builds'' f - {''/tmp/autotunchi-builds/b1''})"
  by (simp add: buildProject_def build_try_def failing_build_env_def ok_build_env_def
      cleanup_def workDir_of_def errmsg_def Let_def)

lemma rolled_back_finds:
  "find_deployment rolled_back_db ''d2'' = Some rollback_deployment"
  "find_project rolled_back_db (projectId rollback_deployment) = Some example_project"
  by (simp_all add: rolled_back_db_eq find_deployment_def find_project_def example_db_def
      live_deployment_def rollback_deployment_def example_project_def)

lemma build_fails_env_fails:
  "\<not> build_succeeds build_fails_env rollback_deployment example_project {}"
  by (simp add: build_succeeds_def build_fails_env_def dns_fails_env_def nonempty_def
      failing_build_result)

text \<open>
  C2 as stated fails.  The record a rollback creates has an image tag although no build
  has run for it; and when the orchestrator then processes it and its build fails, the
  record still has the tag.
\<close>

theorem rollback_record_has_imageTag_without_build:
  "find_deployment rolled_back_db ''d2'' = Some rollback_deployment
   \<and> imageTag rollback_deployment = Some ''registry/app:abc1234''
   \<and> buildLogs rollback_deployment = None
   \<and> \<not> build_succeeds build_fails_env rollback_deployment example_project {}
   \<and> map_option imageTag (find_deployment (db_after build_fails_env ''d2'' rolled_back_db {}) ''d2'')
       = Some (Some ''registry/app:abc1234'')"
  using process_imageTag [OF rolled_back_finds, of build_fails_env "{}"]
  by (simp add: rolled_back_finds build_fails_env_fails)
     (simp add: rollback_deployment_def)

text \<open>
  C4 fails on the code in its last part.  The record created by the rollback of \<open>d1\<close> has
  the image tag of \<open>d1\<close> already; \<open>processDeployment\<close> nevertheless runs the build phase
  for it: here the download of the source fails, the build log is written and the
  record ends \<open>failed\<close> with the builder's error.
\<close>

theorem rollback_deployment_is_rebuilt:
  "fst (rollback ''u1'' 5 ''d2'' ''d1'' example_db) = Inr rollback_deployment
   \<and> imageTag rollback_deployment = Some ''registry/app:abc1234''
   \<and> find_deployment (db_after build_fails_env ''d2'' rolled_back_db {}) ''d2''
       = Some (rollback_deployment
                \<lparr> status := ''failed'',
                  buildLogs := Some (''=== Downloading source ==='' @ nl @ nl @
                                     ''=== Error ==='' @ nl @ ''Not Found'' @ nl),
                  error := Some ''Not Found'',
                  finishedAt := Some 10 \<rparr>)"
proof -
  have id: "deploymentId rollback_deployment = ''d2''" by (simp add: rollback_deployment_def)
  have u: "userId example_project = ''u1''" by (simp add: example_project_def)
  have "find_deployment (db_after build_fails_env ''d2'' rolled_back_db {}) ''d2''
       = Some (rollback_deployment
                \<lparr> status := ''failed'',
                  buildLogs := Some (''=== Downloading source ==='' @ nl @ nl @
                                     ''=== Error ==='' @ nl @ ''Not Found'' @ nl),
                  error := Some ''Not Found'',
                  finishedAt := Some 10 \<rparr>)"
    by (simp add: db_after_def processDeployment_def pipeline_def rolled_back_finds
        find_deployment_update id u build_fails_env_def dns_fails_env_def nonempty_def
        failing_build_result or_default_def errmsg_def Let_def)
  then show ?thesis
    by (simp add: rollback_example) (simp add: rollback_deployment_def)
qed

theorem rollback_deployment_is_rebuilt_witness:
  "map_option status (find_deployment (db_after build_fails_env ''d2'' rolled_back_db {}) ''d2'')
     = Some ''failed''
   \<and> map_option buildLogs
        (find_deployment (db_after build_fails_env ''d2'' rolled_back_db {}) ''d2'') \<noteq> Some None"
  using rollback_deployment_is_rebuilt by simp

section \<open>Properties of the webhook endpoint\<close>

text \<open>
  Every run of the handler is of one of three kinds: the database is returned unchanged
  with a status other than 401; or the payload parsed to a branch push of a known project
  and the signature did not verify, answered 401 with the database unchanged; or the
  signature verified and the insert gave the database returned.
\<close>

lemma POST_cases:
  "(snd (POST env req d) = d \<and> resp_status (fst (POST env req d)) \<noteq> 401)
   \<or> (\<exists>json ev ref b p.
        x_github_event req = Some ''push'' \<and>
        JSON_parse env (req_body req) = Inr json \<and>
        parsePushEvent json = Inr (Some ev) \<and>
        ev_ref ev = JStr ref \<and>
        extractBranchFromRef ref = Some b \<and>
        find_project_for_push env d (ev_repository_full_name ev) b = Inr (Some p) \<and>
        ((verifyWebhookSignature (hmac_sha256 env) (req_body req) (x_hub_signature_256 req)
            (webhookSecret p) = Inr False \<and>
          POST env req d
            = (\<lparr>resp_status = 401, resp_json = [(''error'', ''Invalid signature'')]\<rparr>, d))
         \<or> (\<exists>msg sha.
              verifyWebhookSignature (hmac_sha256 env) (req_body req) (x_hub_signature_256 req)
                (webhookSecret p) = Inr True \<and>
              push_commitMsg ev = Inr msg \<and>
              sql_param env (ev_after ev) = Inr (Some sha) \<and>
              insert_deployment d
                (new_deployment (randomUUID env) (clock env) (project_id p) sha msg
                   ''pending'' None)
                = Inr (snd (POST env req d)) \<and>
              resp_status (fst (POST env req d)) \<noteq> 401)))"
proof (cases "x_github_event req = Some ''push''")
  case False
  then show ?thesis by (simp add: POST_def)
next
  case push: True
  show ?thesis
  proof (cases "JSON_parse env (req_body req)")
    case (Inl e)
    then show ?thesis using push by (simp add: POST_def internal_server_error_def)
  next
    case js: (Inr json)
    show ?thesis
    proof (cases "parsePushEvent json")
      case (Inl e)
      then show ?thesis using push js by (simp add: POST_def internal_server_error_def)
    next
      case pe: (Inr evo)
      show ?thesis
      proof (cases evo)
        case None
        then show ?thesis using push js pe by (simp add: POST_def)
      next
        case ev: (Some ev)
        show ?thesis
        proof (cases "\<exists>ref. ev_ref ev = JStr ref")
          case False
          then show ?thesis using push js pe ev
            by (cases "ev_ref ev") (simp_all add: POST_def internal_server_error_def)
        next
          case True
          then obtain ref where rf: "ev_ref ev = JStr ref" by blast
          show ?thesis
          proof (cases "extractBranchFromRef ref")
            case None
            then show ?thesis using push js pe ev rf by (simp add: POST_def)
          next
            case br: (Some b)
            show ?thesis
            proof (cases "find_project_for_push env d (ev_repository_full_name ev) b")
              case (Inl e)
              then show ?thesis using push js pe ev rf br
                by (simp add: POST_def internal_server_error_def)
            next
              case fp: (Inr po)
              show ?thesis
              proof (cases po)
                case None
                then show ?thesis using push js pe ev rf br fp by (simp add: POST_def)
              next
                case pr: (Some p)
                note facts = push js pe ev rf br fp pr
                show ?thesis
                proof (cases "verifyWebhookSignature (hmac_sha256 env) (req_body req)
                    (x_hub_signature_256 req) (webhookSecret p)")
                  case (Inl e)
                  then show ?thesis using verify_never_throws by blast
                next
                  case vf: (Inr ok)
                  show ?thesis
                  proof (cases ok)
                    case False
                    then show ?thesis using facts vf by (simp add: POST_def)
                  next
                    case vt: True
                    show ?thesis
                    proof (cases "push_commitMsg ev")
                      case (Inl e)
                      then show ?thesis using facts vf vt
                        by (simp add: POST_def internal_server_error_def)
                    next
                      case cm: (Inr msg)
                      show ?thesis
                      proof (cases "sql_param env (ev_after ev)")
                        case (Inl e)
                        then show ?thesis using facts vf vt cm
                          by (simp add: POST_def internal_server_error_def)
                      next
                        case sp: (Inr so)
                        show ?thesis
                        proof (cases so)
                          case None
                          then show ?thesis using facts vf vt cm sp
                            by (simp add: POST_def internal_server_error_def)
                        next
                          case sh: (Some sha)
                          show ?thesis
                          proof (cases "insert_deployment d (new_deployment (randomUUID env)
                              (clock env) (project_id p) sha msg ''pending'' None)")
                            case (Inl e)
                            then show ?thesis using facts vf vt cm sp sh
                              by (simp add: POST_def internal_server_error_def)
                          next
                            case (Inr d')
                            then show ?thesis using facts vf vt cm sp sh
                              by (cases "ev_after ev")
                                (simp_all add: POST_def internal_server_error_def)
                          qed
                        qed
                      qed
                    qed
                  qed
                qed
              qed
            qed
          qed
        qed
      qed
    qed
  qed
qed

lemma find_project_for_push_member:
  "find_project_for_push env d v b = Inr (Some p) \<Longrightarrow> p \<in> set (projects d)"
  by (auto simp: find_project_for_push_def bindE_def find_Some_iff
      split: sum.splits option.splits)

lemma POST_changed:
  assumes "snd (POST env req d) \<noteq> d"
  shows "\<exists>json ev b p msg sha.
           JSON_parse env (req_body req) = Inr json \<and>
           parsePushEvent json = Inr (Some ev) \<and>
           find_project_for_push env d (ev_repository_full_name ev) b = Inr (Some p) \<and>
           verifyWebhookSignature (hmac_sha256 env) (req_body req) (x_hub_signature_256 req)
             (webhookSecret p) = Inr True \<and>
           push_commitMsg ev = Inr msg \<and>
           insert_deployment d
             (new_deployment (randomUUID env) (clock env) (project_id p) sha msg
                ''pending'' None)
             = Inr (snd (POST env req d))"
  using POST_cases [of env req d]
proof (elim disjE exE conjE, goal_cases)
  case 1
  then show ?case using assms by simp
next
  case (2 json ev ref b p)
  then show ?case using assms by simp
next
  case (3 json ev ref b p msg sha)
  then show ?case by blast
qed

lemma POST_unauthorized:
  assumes "resp_status (fst (POST env req d)) = 401"
  shows "snd (POST env req d) = d \<and>
         (\<exists>json ev. JSON_parse env (req_body req) = Inr json \<and>
                    parsePushEvent json = Inr (Some ev))"
  using POST_cases [of env req d]
proof (elim disjE exE conjE, goal_cases)
  case 1
  then show ?case using assms by simp
next
  case (2 json ev ref b p)
  then show ?case by auto
next
  case (3 json ev ref b p msg sha)
  then show ?case using assms by simp
qed

lemma db_changed_iff: "d\<lparr>deployments := deployments d @ [r]\<rparr> \<noteq> d"
proof
  assume "d\<lparr>deployments := deployments d @ [r]\<rparr> = d"
  then have "deployments (d\<lparr>deployments := deployments d @ [r]\<rparr>) = deployments d" by simp
  then show False by simp
qed

text \<open>
  C6, as amended.  The handler parses the event first, then looks the project up and
  verifies the signature with that project's secret, and only then creates the record:
  a database that changed means that the signature verified for a project; an answer
  401 means that the payload had parsed and leaves the database unchanged; and a parsed
  branch push of a known project whose signature does not verify is answered 401 with
  the database unchanged.
\<close>

theorem POST_creates_only_after_verification:
  "(snd (POST env req d) \<noteq> d \<longrightarrow>
      (\<exists>p \<in> set (projects d).
         verifyWebhookSignature (hmac_sha256 env) (req_body req) (x_hub_signature_256 req)
           (webhookSecret p) = Inr True))
   \<and> (resp_status (fst (POST env req d)) = 401 \<longrightarrow>
        snd (POST env req d) = d \<and>
        (\<exists>json ev. JSON_parse env (req_body req) = Inr json \<and>
                   parsePushEvent json = Inr (Some ev)))
   \<and> (x_github_event req = Some ''push'' \<and>
        JSON_parse env (req_body req) = Inr json \<and>
        parsePushEvent json = Inr (Some ev) \<and>
        ev_ref ev = JStr ref \<and>
        extractBranchFromRef ref = Some b \<and>
        find_project_for_push env d (ev_repository_full_name ev) b = Inr (Some p) \<and>
        verifyWebhookSignature (hmac_sha256 env) (req_body req) (x_hub_signature_256 req)
          (webhookSecret p) = Inr False \<longrightarrow>
        POST env req d
          = (\<lparr>resp_status = 401, resp_json = [(''error'', ''Invalid signature'')]\<rparr>, d))"
proof (intro conjI impI)
  assume "snd (POST env req d) \<noteq> d"
  from POST_changed [OF this] obtain ev :: PushEvent and b and p :: project where
    "find_project_for_push env d (ev_repository_full_name ev) b = Inr (Some p)"
    "verifyWebhookSignature (hmac_sha256 env) (req_body req) (x_hub_signature_256 req)
       (webhookSecret p) = Inr True"
    by blast
  then show "\<exists>p \<in> set (projects d).
         verifyWebhookSignature (hmac_sha256 env) (req_body req) (x_hub_signature_256 req)
           (webhookSecret p) = Inr True"
    using find_project_for_push_member by blast
next
  assume "resp_status (fst (POST env req d)) = 401"
  then show "snd (POST env req d) = d"
    using POST_unauthorized by blast
next
  assume "resp_status (fst (POST env req d)) = 401"
  then show "\<exists>json ev. JSON_parse env (req_body req) = Inr json \<and>
                   parsePushEvent json = Inr (Some ev)"
    using POST_unauthorized by blast
next
  assume "x_github_event req = Some ''push'' \<and>
        JSON_parse env (req_body req) = Inr json \<and>
        parsePushEvent json = Inr (Some ev) \<and>
        ev_ref ev = JStr ref \<and>
        extractBranchFromRef ref = Some b \<and>
        find_project_for_push env d (ev_repository_full_name ev) b = Inr (Some p) \<and>
        verifyWebhookSignature (hmac_sha256 env) (req_body req) (x_hub_signature_256 req)
          (webhookSecret p) = Inr False"
  then show "POST env req d
          = (\<lparr>resp_status = 401, resp_json = [(''error'', ''Invalid signature'')]\<rparr>, d)"
    by (simp add: POST_def)
qed

lemma push_payload_parsed: "parsePushEvent push_payload = Inr (Some push_event)"
  by (simp add: parsePushEvent_def push_payload_def push_event_def bindE_def)

lemma example_push_project:
  "find_project_for_push example_webhook_env example_db (JStr ''octo/app'') ''main''
     = Inr (Some example_project)"
  by (simp add: find_project_for_push_def sql_param_def bindE_def example_db_def
      example_project_def)

lemma unsigned_push_rejected:
  "verifyWebhookSignature (hmac_sha256 example_webhook_env) (req_body unsigned_push_request)
     (x_hub_signature_256 unsigned_push_request) (webhookSecret example_project) = Inr False"
  by (simp add: verifyWebhookSignature_def unsigned_push_request_def)

theorem POST_creates_only_after_verification_witness:
  "x_github_event unsigned_push_request = Some ''push''
   \<and> extractBranchFromRef ''refs/heads/main'' = Some ''main''
   \<and> verifyWebhookSignature (hmac_sha256 example_webhook_env) (req_body unsigned_push_request)
        (x_hub_signature_256 unsigned_push_request) (webhookSecret example_project) = Inr False
   \<and> POST example_webhook_env unsigned_push_request example_db
        = (\<lparr>resp_status = 401, resp_json = [(''error'', ''Invalid signature'')]\<rparr>, example_db)"
proof -
  have a: "x_github_event unsigned_push_request = Some ''push''"
    "JSON_parse example_webhook_env (req_body unsigned_push_request) = Inr push_payload"
    by (simp_all add: unsigned_push_request_def example_webhook_env_def)
  have b: "extractBranchFromRef ''refs/heads/main'' = Some ''main''"
    by (simp add: extractBranchFromRef_def line_terminator_def)
  have c: "ev_ref push_event = JStr ''refs/heads/main''"
    "ev_repository_full_name push_event = JStr ''octo/app''"
    by (simp_all add: push_event_def)
  show ?thesis
    using a b c push_payload_parsed example_push_project unsigned_push_rejected
      POST_creates_only_after_verification [of example_webhook_env unsigned_push_request
        example_db push_payload push_event "''refs/heads/main''" "''main''" example_project]
    by simp
qed

text \<open>
  C6 as stated fails: the request below carries no signature, so its signature does not
  verify with the secret of the only project; the handler has parsed it before any
  verification and answers 400, not 401.
\<close>

theorem unsigned_request_answered_invalid_payload:
  "verifyWebhookSignature (hmac_sha256 example_webhook_env) (req_body empty_object_request)
     (x_hub_signature_256 empty_object_request) (webhookSecret example_project) = Inr False
   \<and> projects example_db = [example_project]
   \<and> POST example_webhook_env empty_object_request example_db
       = (\<lparr>resp_status = 400, resp_json = [(''error'', ''Invalid payload'')]\<rparr>, example_db)"
  by (simp add: verifyWebhookSignature_def empty_object_request_def POST_def
      example_webhook_env_def parsePushEvent_def bindE_def example_db_def)

section \<open>Stored commit messages\<close>

text \<open>
  What \<open>head_commit?.message?.substring(0, 500) || null\<close> yields when it does not throw:
  the first 500 characters of a message that is a string and not empty, and \<open>null\<close>
  exactly when there is no head commit, no message, or the message is the empty string.
\<close>

lemma push_commitMsg_stored:
  assumes "push_commitMsg ev = Inr msg"
  shows "(\<exists>i m. ev_head_commit ev = Some (i, JStr m) \<and> m \<noteq> [] \<and> msg = Some (take 500 m))
         \<or> ((ev_head_commit ev = None
              \<or> (\<exists>i. ev_head_commit ev = Some (i, JUndefined))
              \<or> (\<exists>i. ev_head_commit ev = Some (i, JNull))
              \<or> (\<exists>i. ev_head_commit ev = Some (i, JStr [])))
             \<and> msg = None)"
proof (cases "ev_head_commit ev")
  case None
  then show ?thesis using assms by (simp add: push_commitMsg_def)
next
  case (Some hc)
  obtain i message where hc: "hc = (i, message)" by (cases hc)
  show ?thesis
  proof (cases message)
    case (JStr m)
    show ?thesis
    proof (cases "m = []")
      case True
      then show ?thesis using assms Some hc JStr
        by (simp add: push_commitMsg_def nonempty_def)
    next
      case False
      then have "take 500 m \<noteq> []" by simp
      then show ?thesis using assms Some hc JStr False
        by (simp add: push_commitMsg_def nonempty_def)
    qed
  qed (use assms Some hc in \<open>simp_all add: push_commitMsg_def\<close>)
qed

lemma push_commitMsg_length:
  assumes "push_commitMsg ev = Inr (Some m)"
  shows "length m \<le> 500"
  using push_commitMsg_stored [OF assms] by auto

lemma POST_appended:
  assumes "deployments (snd (POST env req d)) = deployments d @ [n]"
  shows "\<exists>json ev.
           JSON_parse env (req_body req) = Inr json \<and>
           parsePushEvent json = Inr (Some ev) \<and>
           push_commitMsg ev = Inr (commitMsg n) \<and>
           status n = ''pending'' \<and> imageTag n = None"
proof -
  have "snd (POST env req d) \<noteq> d" using assms by auto
  from POST_changed [OF this] obtain json ev and p :: project and msg sha where
    f: "JSON_parse env (req_body req) = Inr json" "parsePushEvent json = Inr (Some ev)"
       "push_commitMsg ev = Inr msg"
       "insert_deployment d
                (new_deployment (randomUUID env) (clock env) (project_id p) sha msg
                   ''pending'' None) = Inr (snd (POST env req d))"
    by blast
  from insert_deployment_appends [OF f(4)] assms
  have "n = new_deployment (randomUUID env) (clock env) (project_id p) sha msg ''pending'' None"
    by simp
  then have "commitMsg n = msg" "status n = ''pending''" "imageTag n = None"
    by (simp_all add: new_deployment_def)
  then show ?thesis using f(1) f(2) f(3) by simp
qed

lemma triggerDeploy_created:
  "fst (triggerDeploy uid now uuid token latestCommit pid d) = Inr n \<Longrightarrow>
     \<exists>sha message. latestCommit = Inr (sha, message) \<and>
       commitMsg n = Some (take 500 message) \<and> commitSha n = sha \<and>
       status n = ''pending'' \<and> imageTag n = None"
  by (auto simp: triggerDeploy_def Let_def new_deployment_def
      split: option.splits sum.splits if_splits prod.splits)

text \<open>
  The handler either leaves the database as it was or appends one record, whose message
  is the one \<open>push_commitMsg\<close> gives for the parsed event.
\<close>

lemma POST_stored:
  assumes "snd (POST env req d) \<noteq> d"
  shows "\<exists>json ev n.
           JSON_parse env (req_body req) = Inr json \<and>
           parsePushEvent json = Inr (Some ev) \<and>
           snd (POST env req d) = d\<lparr>deployments := deployments d @ [n]\<rparr> \<and>
           push_commitMsg ev = Inr (commitMsg n)"
proof -
  from POST_changed [OF assms] obtain json ev and p :: project and msg sha where
    f: "JSON_parse env (req_body req) = Inr json" "parsePushEvent json = Inr (Some ev)"
       "push_commitMsg ev = Inr msg"
       "insert_deployment d
                (new_deployment (randomUUID env) (clock env) (project_id p) sha msg
                   ''pending'' None) = Inr (snd (POST env req d))"
    by blast
  define n where
    "n = new_deployment (randomUUID env) (clock env) (project_id p) sha msg ''pending'' None"
  have s: "snd (POST env req d) = d\<lparr>deployments := deployments d @ [n]\<rparr>"
    using insert_deployment_appends [OF f(4)] by (simp add: n_def)
  have m: "push_commitMsg ev = Inr (commitMsg n)"
    using f(3) by (simp add: n_def new_deployment_def)
  show ?thesis using f(1) f(2) s m by blast
qed

text \<open>
  The manual trigger either fails and leaves the database as it was, or returns the record
  it appended, whose message is the first 500 characters of the commit's message.
\<close>

lemma triggerDeploy_stored:
  "(snd (triggerDeploy uid now uuid token latestCommit pid d) = d
      \<and> (\<exists>e. fst (triggerDeploy uid now uuid token latestCommit pid d) = Inl e))
   \<or> (\<exists>sha message n.
         latestCommit = Inr (sha, message) \<and>
         fst (triggerDeploy uid now uuid token latestCommit pid d) = Inr n \<and>
         snd (triggerDeploy uid now uuid token latestCommit pid d)
           = d\<lparr>deployments := deployments d @ [n]\<rparr> \<and>
         commitMsg n = Some (take 500 message))"
proof (cases "find (\<lambda>p. project_id p = pid \<and> userId p = uid) (projects d)")
  case None
  then show ?thesis by (simp add: triggerDeploy_def)
next
  case (Some p)
  show ?thesis
  proof (cases token)
    case (Inl e)
    then show ?thesis using Some by (simp add: triggerDeploy_def)
  next
    case (Inr t)
    show ?thesis
    proof (cases "nonempty t = None")
      case True
      then show ?thesis using Some Inr by (simp add: triggerDeploy_def)
    next
      case False
      show ?thesis
      proof (cases latestCommit)
        case (Inl e)
        then show ?thesis using Some Inr False by (simp add: triggerDeploy_def)
      next
        case c: (Inr c)
        obtain sha message where sm: "c = (sha, message)" by (cases c)
        define r where
          "r = new_deployment uuid now (project_id p) sha (Some (take 500 message))
                 ''pending'' None"
        have t: "triggerDeploy uid now uuid token latestCommit pid d
                 = (case insert_deployment d r of
                      Inl e \<Rightarrow> (Inl (INTERNAL_SERVER_ERROR e), d)
                    | Inr d' \<Rightarrow> (Inr r, d'))"
          using Some Inr c sm unfolding r_def by (simp add: triggerDeploy_def Let_def False)
        show ?thesis
        proof (cases "insert_deployment d r")
          case (Inl e)
          then show ?thesis using t by simp
        next
          case i: (Inr d')
          have d': "d' = d\<lparr>deployments := deployments d @ [r]\<rparr>"
            using i by (rule insert_deployment_appends)
          have m: "commitMsg r = Some (take 500 message)"
            by (simp add: r_def new_deployment_def)
          have "latestCommit = Inr (sha, message) \<and>
                fst (triggerDeploy uid now uuid token latestCommit pid d) = Inr r \<and>
                snd (triggerDeploy uid now uuid token latestCommit pid d)
                  = d\<lparr>deployments := deployments d @ [r]\<rparr> \<and>
                commitMsg r = Some (take 500 message)"
            using t i d' m c sm by simp
          then show ?thesis by blast
        qed
      qed
    qed
  qed
qed

text \<open>
  C10. The webhook handler either leaves the database unchanged or appends exactly one
  record; the stored \<open>commitMsg\<close> of that record is the first 500 characters of the head
  commit's message when that message is a string and not empty, and \<open>null\<close> exactly when
  the push has no head commit, the head commit has no message, or the message is empty.
  The manual trigger either fails and leaves the database unchanged, or appends exactly
  one record, the one it returns, whose stored \<open>commitMsg\<close> is the first 500 characters of
  the latest commit's message.  In both cases the stored message has at most 500
  characters.
\<close>

theorem stored_commitMsg_truncated:
  "(snd (POST env req d) = d
    \<or> (\<exists>json ev n.
          JSON_parse env (req_body req) = Inr json \<and>
          parsePushEvent json = Inr (Some ev) \<and>
          snd (POST env req d) = d\<lparr>deployments := deployments d @ [n]\<rparr> \<and>
          ((\<exists>i m. ev_head_commit ev = Some (i, JStr m) \<and> m \<noteq> [] \<and>
                   commitMsg n = Some (take 500 m))
           \<or> ((ev_head_commit ev = None
                \<or> (\<exists>i. ev_head_commit ev = Some (i, JUndefined))
                \<or> (\<exists>i. ev_head_commit ev = Some (i, JNull))
                \<or> (\<exists>i. ev_head_commit ev = Some (i, JStr [])))
               \<and> commitMsg n = None)) \<and>
          (\<forall>m. commitMsg n = Some m \<longrightarrow> length m \<le> 500)))
   \<and> ((snd (triggerDeploy uid now uuid token latestCommit pid d) = d
         \<and> (\<exists>e. fst (triggerDeploy uid now uuid token latestCommit pid d) = Inl e))
       \<or> (\<exists>sha message n.
             latestCommit = Inr (sha, message) \<and>
             fst (triggerDeploy uid now uuid token latestCommit pid d) = Inr n \<and>
             snd (triggerDeploy uid now uuid token latestCommit pid d)
               = d\<lparr>deployments := deployments d @ [n]\<rparr> \<and>
             commitMsg n = Some (take 500 message) \<and>
             (\<forall>m. commitMsg n = Some m \<longrightarrow> length m \<le> 500)))"
proof (rule conjI)
  show "snd (POST env req d) = d
    \<or> (\<exists>json ev n.
          JSON_parse env (req_body req) = Inr json \<and>
          parsePushEvent json = Inr (Some ev) \<and>
          snd (POST env req d) = d\<lparr>deployments := deployments d @ [n]\<rparr> \<and>
          ((\<exists>i m. ev_head_commit ev = Some (i, JStr m) \<and> m \<noteq> [] \<and>
                   commitMsg n = Some (take 500 m))
           \<or> ((ev_head_commit ev = None
                \<or> (\<exists>i. ev_head_commit ev = Some (i, JUndefined))
                \<or> (\<exists>i. ev_head_commit ev = Some (i, JNull))
                \<or> (\<exists>i. ev_head_commit ev = Some (i, JStr [])))
               \<and> commitMsg n = None)) \<and>
          (\<forall>m. commitMsg n = Some m \<longrightarrow> length m \<le> 500))"
  proof (cases "snd (POST env req d) = d")
    case True
    then show ?thesis by simp
  next
    case False
    from POST_stored [OF this] obtain json ev and n :: deployment where
      f: "JSON_parse env (req_body req) = Inr json" "parsePushEvent json = Inr (Some ev)"
         "snd (POST env req d) = d\<lparr>deployments := deployments d @ [n]\<rparr>"
         "push_commitMsg ev = Inr (commitMsg n)"
      by blast
    have l: "\<forall>m. commitMsg n = Some m \<longrightarrow> length m \<le> 500"
      using f(4) push_commitMsg_length [of ev] by auto
    note s = push_commitMsg_stored [OF f(4)]
    from f(1) f(2) f(3) s l show ?thesis by blast
  qed
next
  show "(snd (triggerDeploy uid now uuid token latestCommit pid d) = d
         \<and> (\<exists>e. fst (triggerDeploy uid now uuid token latestCommit pid d) = Inl e))
       \<or> (\<exists>sha message n.
             latestCommit = Inr (sha, message) \<and>
             fst (triggerDeploy uid now uuid token latestCommit pid d) = Inr n \<and>
             snd (triggerDeploy uid now uuid token latestCommit pid d)
               = d\<lparr>deployments := deployments d @ [n]\<rparr> \<and>
             commitMsg n = Some (take 500 message) \<and>
             (\<forall>m. commitMsg n = Some m \<longrightarrow> length m \<le> 500))"
    using triggerDeploy_stored [of uid now uuid token latestCommit pid d]
  proof (elim disjE exE conjE, goal_cases)
    case (1 e)
    then show ?case by simp
  next
    case (2 sha message n)
    have "\<forall>m. commitMsg n = Some m \<longrightarrow> length m \<le> 500" using 2(4) by auto
    then show ?case using 2 by blast
  qed
qed

lemma signed_push_creates:
  "POST example_webhook_env signed_push_request example_db
     = (\<lparr>resp_status = 200,
         resp_json = [(''message'', ''Deployment triggered''), (''deploymentId'', ''d9'')]\<rparr>,
        example_db\<lparr>deployments := [live_deployment, pushed_deployment]\<rparr>)"
proof -
  have a: "x_github_event signed_push_request = Some ''push''"
    "JSON_parse example_webhook_env (req_body signed_push_request) = Inr push_payload"
    by (simp_all add: signed_push_request_def example_webhook_env_def)
  have b: "extractBranchFromRef ''refs/heads/main'' = Some ''main''"
    by (simp add: extractBranchFromRef_def line_terminator_def)
  have v: "verifyWebhookSignature (hmac_sha256 example_webhook_env)
             (req_body signed_push_request) (x_hub_signature_256 signed_push_request)
             (webhookSecret example_project) = Inr True"
    by (simp add: verifyWebhookSignature_def signed_push_request_def example_webhook_env_def
        timingSafeEqual_def hex_digit_def hex_val_def)
  have c: "push_commitMsg push_event = Inr (Some ''fix'')"
    by (simp add: push_commitMsg_def push_event_def nonempty_def)
  have i: "insert_deployment example_db
             (new_deployment ''d9'' 7 ''p1'' ''abc1234def'' (Some ''fix'') ''pending'' None)
           = Inr (example_db\<lparr>deployments := [live_deployment, pushed_deployment]\<rparr>)"
    by (simp add: insert_deployment_def new_deployment_def pushed_deployment_def
        example_db_def live_deployment_def find_project_def example_project_def)
  have e: "ev_ref push_event = JStr ''refs/heads/main''"
    "ev_repository_full_name push_event = JStr ''octo/app''"
    "ev_after push_event = JStr ''abc1234def''"
    by (simp_all add: push_event_def)
  have r: "randomUUID example_webhook_env = ''d9''" "clock example_webhook_env = 7"
    "project_id example_project = ''p1''"
    by (simp_all add: example_webhook_env_def example_project_def)
  show ?thesis
    by (simp add: POST_def a b v c i e r push_payload_parsed example_push_project
        sql_param_def)
qed

lemma trigger_creates:
  "fst (triggerDeploy ''u1'' 7 ''d9'' (Inr (Some ''tok'')) (Inr (''abc1234def'', ''fix'')) ''p1''
          example_db) = Inr pushed_deployment"
  by (simp add: triggerDeploy_def example_db_def example_project_def nonempty_def
      insert_deployment_def new_deployment_def pushed_deployment_def live_deployment_def
      find_project_def Let_def)

subsection \<open>A message of 600 characters\<close>

lemma long_message_facts:
  "length long_message = 600" "long_message \<noteq> []"
  "take 500 long_message = replicate 500 CHR ''a''"
  by (simp_all add: long_message_def)

lemma long_push_payload_parsed: "parsePushEvent long_push_payload = Inr (Some long_push_event)"
  by (simp add: parsePushEvent_def long_push_payload_def long_push_event_def bindE_def)

lemma long_push_project:
  "find_project_for_push long_webhook_env example_db (JStr ''octo/app'') ''main''
     = Inr (Some example_project)"
  by (simp add: find_project_for_push_def sql_param_def bindE_def example_db_def
      example_project_def)

lemma long_push_creates:
  "POST long_webhook_env long_push_request example_db
     = (\<lparr>resp_status = 200,
         resp_json = [(''message'', ''Deployment triggered''), (''deploymentId'', ''d9'')]\<rparr>,
        example_db\<lparr>deployments := deployments example_db @ [truncated_deployment]\<rparr>)"
proof -
  have a: "x_github_event long_push_request = Some ''push''"
    "JSON_parse long_webhook_env (req_body long_push_request) = Inr long_push_payload"
    by (simp_all add: long_push_request_def long_webhook_env_def)
  have b: "extractBranchFromRef ''refs/heads/main'' = Some ''main''"
    by (simp add: extractBranchFromRef_def line_terminator_def)
  have v: "verifyWebhookSignature (hmac_sha256 long_webhook_env)
             (req_body long_push_request) (x_hub_signature_256 long_push_request)
             (webhookSecret example_project) = Inr True"
    by (simp add: verifyWebhookSignature_def long_push_request_def long_webhook_env_def
        timingSafeEqual_def hex_digit_def hex_val_def)
  have c: "push_commitMsg long_push_event = Inr (Some (replicate 500 CHR ''a''))"
    by (simp add: push_commitMsg_def long_push_event_def nonempty_def long_message_facts)
  have i: "insert_deployment example_db
             (new_deployment ''d9'' 7 ''p1'' ''abc1234def'' (Some (replicate 500 CHR ''a''))
                ''pending'' None)
           = Inr (example_db\<lparr>deployments := deployments example_db @ [truncated_deployment]\<rparr>)"
    by (simp add: insert_deployment_def new_deployment_def truncated_deployment_def
        example_db_def live_deployment_def find_project_def example_project_def)
  have e: "ev_ref long_push_event = JStr ''refs/heads/main''"
    "ev_repository_full_name long_push_event = JStr ''octo/app''"
    "ev_after long_push_event = JStr ''abc1234def''"
    by (simp_all add: long_push_event_def)
  have r: "randomUUID long_webhook_env = ''d9''" "clock long_webhook_env = 7"
    "project_id example_project = ''p1''"
    by (simp_all add: long_webhook_env_def example_project_def)
  show ?thesis
    by (simp add: POST_def a b v c i e r long_push_payload_parsed long_push_project
        sql_param_def)
qed

lemma long_trigger_creates:
  "triggerDeploy ''u1'' 7 ''d9'' (Inr (Some ''tok'')) (Inr (''abc1234def'', long_message)) ''p1''
     example_db
   = (Inr truncated_deployment,
      example_db\<lparr>deployments := deployments example_db @ [truncated_deployment]\<rparr>)"
  by (simp add: triggerDeploy_def example_db_def example_project_def nonempty_def
      insert_deployment_def new_deployment_def truncated_deployment_def live_deployment_def
      find_project_def Let_def long_message_facts)

lemma appended_row:
  "d\<lparr>deployments := deployments d @ [n]\<rparr> = d\<lparr>deployments := deployments d @ [n']\<rparr>
     \<Longrightarrow> n = n'"
proof -
  assume "d\<lparr>deployments := deployments d @ [n]\<rparr> = d\<lparr>deployments := deployments d @ [n']\<rparr>"
  then have "deployments (d\<lparr>deployments := deployments d @ [n]\<rparr>)
             = deployments (d\<lparr>deployments := deployments d @ [n']\<rparr>)"
    by (rule arg_cong)
  then show ?thesis by simp
qed

text \<open>
  The message of 600 characters is stored cut to its first 500 characters, by the webhook
  handler and by the manual trigger.
\<close>

theorem stored_commitMsg_truncated_witness:
  "snd (POST long_webhook_env long_push_request example_db)
     = example_db\<lparr>deployments := deployments example_db @ [truncated_deployment]\<rparr>
   \<and> JSON_parse long_webhook_env (req_body long_push_request) = Inr long_push_payload
   \<and> parsePushEvent long_push_payload = Inr (Some long_push_event)
   \<and> ev_head_commit long_push_event = Some (JStr ''abc1234def'', JStr long_message)
   \<and> triggerDeploy ''u1'' 7 ''d9'' (Inr (Some ''tok'')) (Inr (''abc1234def'', long_message))
        ''p1'' example_db
      = (Inr truncated_deployment,
         example_db\<lparr>deployments := deployments example_db @ [truncated_deployment]\<rparr>)
   \<and> length long_message = 600
   \<and> commitMsg truncated_deployment = Some (take 500 long_message)
   \<and> length (take 500 long_message) = 500"
proof -
  let ?d' = "example_db\<lparr>deployments := deployments example_db @ [truncated_deployment]\<rparr>"
  have p: "snd (POST long_webhook_env long_push_request example_db) = ?d'"
    by (simp add: long_push_creates)
  have j: "JSON_parse long_webhook_env (req_body long_push_request) = Inr long_push_payload"
    by (simp add: long_push_request_def long_webhook_env_def)
  have h: "ev_head_commit long_push_event = Some (JStr ''abc1234def'', JStr long_message)"
    by (simp add: long_push_event_def)
  have ne: "snd (POST long_webhook_env long_push_request example_db) \<noteq> example_db"
    unfolding p by (rule db_changed_iff)
  note t = stored_commitMsg_truncated [of long_webhook_env long_push_request example_db
      "''u1''" 7 "''d9''" "Inr (Some ''tok'')" "Inr (''abc1234def'', long_message)" "''p1''"]
  from conjunct1 [OF t] ne obtain json ev and n :: deployment where
    f: "JSON_parse long_webhook_env (req_body long_push_request) = Inr json"
       "parsePushEvent json = Inr (Some ev)"
       "snd (POST long_webhook_env long_push_request example_db)
          = example_db\<lparr>deployments := deployments example_db @ [n]\<rparr>"
       "(\<exists>i m. ev_head_commit ev = Some (i, JStr m) \<and> m \<noteq> [] \<and>
                commitMsg n = Some (take 500 m))
        \<or> ((ev_head_commit ev = None
             \<or> (\<exists>i. ev_head_commit ev = Some (i, JUndefined))
             \<or> (\<exists>i. ev_head_commit ev = Some (i, JNull))
             \<or> (\<exists>i. ev_head_commit ev = Some (i, JStr [])))
            \<and> commitMsg n = None)"
    by blast
  have "json = long_push_payload" using f(1) j by simp
  then have ev: "ev = long_push_event" using f(2) long_push_payload_parsed by simp
  have n: "n = truncated_deployment"
    using f(3) unfolding p by (rule appended_row [symmetric])
  have c: "commitMsg truncated_deployment = Some (take 500 long_message)"
    using f(4) unfolding ev n h by (simp add: long_message_facts)
  have l: "length (take 500 long_message) = 500"
    by (simp add: long_message_facts)
  show ?thesis
    using p j long_push_payload_parsed h long_trigger_creates long_message_facts(1) c l
    by (intro conjI)
qed

section \<open>When the image tag is set\<close>

lemma rollback_created:
  "fst (rollback uid now uuid j d) = Inr n \<Longrightarrow>
     \<exists>s. find_deployment d j = Some s \<and> status s = ''live'' \<and> imageTag n = imageTag s \<and>
         imageTag n \<noteq> None \<and> status n = ''pending'' \<and> commitSha n = commitSha s"
  by (auto simp: rollback_def nonempty_def Let_def new_deployment_def
      split: option.splits sum.splits if_splits)

text \<open>
  The image tag, operation by operation.  A record created by the webhook handler or by
  the manual trigger has no image tag.  For a record without image tag that the
  orchestrator processes, the tag is set afterwards if and only if the build phase of
  that run succeeded, and it is then the tag the builder resolved.  A record created by
  a rollback has, from its creation, the image tag of the live record it rolls back to.
\<close>

theorem imageTag_set_iff_build_succeeded:
  "(find_deployment d i = Some r \<and> find_project d (projectId r) = Some p \<and>
    imageTag r = None \<longrightarrow>
      (\<exists>r'. find_deployment (db_after env i d f) i = Some r' \<and>
            (imageTag r' \<noteq> None \<longleftrightarrow> build_succeeds env r p f) \<and>
            (build_succeeds env r p f \<longrightarrow> imageTag r' = Some (built_tag env r p))))
   \<and> (deployments (snd (POST wenv req d)) = deployments d @ [n] \<longrightarrow> imageTag n = None)
   \<and> (fst (triggerDeploy uid now uuid token latestCommit pid d) = Inr n \<longrightarrow>
        imageTag n = None)
   \<and> (fst (rollback uid now uuid j d) = Inr n \<longrightarrow>
        (\<exists>s. find_deployment d j = Some s \<and> status s = ''live'' \<and>
             imageTag n = imageTag s \<and> imageTag n \<noteq> None))"
proof (intro conjI impI)
  assume a: "find_deployment d i = Some r \<and> find_project d (projectId r) = Some p \<and>
    imageTag r = None"
  then have fd: "find_deployment d i = Some r" and fp: "find_project d (projectId r) = Some p"
    and nn: "imageTag r = None"
    by simp_all
  from process_imageTag [OF fd fp, of env f] nn
  obtain r' where r': "find_deployment (db_after env i d f) i = Some r'"
    "imageTag r' = (if build_succeeds env r p f then Some (built_tag env r p) else None)"
    by auto
  show "\<exists>r'. find_deployment (db_after env i d f) i = Some r' \<and>
            (imageTag r' \<noteq> None \<longleftrightarrow> build_succeeds env r p f) \<and>
            (build_succeeds env r p f \<longrightarrow> imageTag r' = Some (built_tag env r p))"
    by (rule exI [of _ r']) (simp add: r')
next
  assume "deployments (snd (POST wenv req d)) = deployments d @ [n]"
  from POST_appended [OF this] show "imageTag n = None" by blast
next
  assume "fst (triggerDeploy uid now uuid token latestCommit pid d) = Inr n"
  from triggerDeploy_created [OF this] show "imageTag n = None" by blast
next
  assume "fst (rollback uid now uuid j d) = Inr n"
  from rollback_created [OF this]
  show "\<exists>s. find_deployment d j = Some s \<and> status s = ''live'' \<and>
             imageTag n = imageTag s \<and> imageTag n \<noteq> None"
    by blast
qed

theorem imageTag_set_iff_build_succeeded_witness:
  "find_deployment pending_db ''d0'' = Some pending_deployment
   \<and> find_project pending_db (projectId pending_deployment) = Some example_project
   \<and> imageTag pending_deployment = None
   \<and> build_succeeds dns_fails_env pending_deployment example_project {}
   \<and> (\<exists>r'. find_deployment (db_after dns_fails_env ''d0'' pending_db {}) ''d0'' = Some r' \<and>
            imageTag r' = Some ''registry/app:abc1234'')
   \<and> fst (rollback ''u1'' 5 ''d2'' ''d1'' example_db) = Inr rollback_deployment
   \<and> imageTag rollback_deployment = imageTag live_deployment"
proof -
  have n: "imageTag pending_deployment = None" by (simp add: pending_deployment_def)
  have t: "built_tag dns_fails_env pending_deployment example_project = ''registry/app:abc1234''"
    by (simp add: built_tag_def dns_fails_env_def pending_deployment_def example_project_def)
  have r: "fst (rollback ''u1'' 5 ''d2'' ''d1'' example_db) = Inr rollback_deployment"
    by (simp add: rollback_example)
  have "\<exists>r'. find_deployment (db_after dns_fails_env ''d0'' pending_db {}) ''d0'' = Some r' \<and>
            (imageTag r' \<noteq> None \<longleftrightarrow>
               build_succeeds dns_fails_env pending_deployment example_project {}) \<and>
            (build_succeeds dns_fails_env pending_deployment example_project {} \<longrightarrow>
               imageTag r' = Some (built_tag dns_fails_env pending_deployment example_project))"
    using example_finds(1) example_finds(2) n
      imageTag_set_iff_build_succeeded [where d = pending_db and i = "''d0''"
        and r = pending_deployment and p = example_project and env = dns_fails_env
        and f = "{}"]
    by blast
  then have p1: "\<exists>r'. find_deployment (db_after dns_fails_env ''d0'' pending_db {}) ''d0'' = Some r' \<and>
            imageTag r' = Some ''registry/app:abc1234''"
    using dns_fails_env_succeeds(1) t by auto
  have "\<exists>s. find_deployment example_db ''d1'' = Some s \<and> status s = ''live'' \<and>
             imageTag rollback_deployment = imageTag s \<and> imageTag rollback_deployment \<noteq> None"
    using r
      imageTag_set_iff_build_succeeded [where d = example_db and n = rollback_deployment
        and uid = "''u1''" and now = 5 and uuid = "''d2''" and j = "''d1''"]
    by blast
  then have p2: "imageTag rollback_deployment = imageTag live_deployment"
    using example_finds(4) by auto
  show ?thesis
    using example_finds(1) example_finds(2) n dns_fails_env_succeeds(1) r p1 p2 by blast
qed

section \<open>The image tag along a run\<close>

lemma find_append_cases:
  "find P (xs @ ys) = (case find P xs of None \<Rightarrow> find P ys | Some x \<Rightarrow> Some x)"
  by (induction xs) auto

lemma tag_invariantI:
  assumes "\<And>j. case find_deployment d j of
                 None \<Rightarrow> \<not> has_image evs j
               | Some r \<Rightarrow> (imageTag r \<noteq> None) = has_image evs j"
  shows "tag_invariant ((d, f), evs)"
  using assms by (simp add: tag_invariant_def)

lemma tag_invariantD:
  assumes "tag_invariant ((d, f), evs)"
  shows "case find_deployment d j of
           None \<Rightarrow> \<not> has_image evs j
         | Some r \<Rightarrow> (imageTag r \<noteq> None) = has_image evs j"
  using assms by (simp add: tag_invariant_def)

lemma find_deployment_insert:
  assumes "insert_deployment d n = Inr d'"
  shows "find_deployment d' j = (if j = deploymentId n then Some n else find_deployment d j)"
    and "find_deployment d (deploymentId n) = None"
proof -
  have fresh: "\<forall>x \<in> set (deployments d). deploymentId x \<noteq> deploymentId n"
    using assms by (auto simp: insert_deployment_def split: if_splits)
  then show none: "find_deployment d (deploymentId n) = None"
    by (auto simp: find_deployment_def find_None_iff)
  have d': "deployments d' = deployments d @ [n]"
    using insert_deployment_appends [OF assms] by simp
  show "find_deployment d' j = (if j = deploymentId n then Some n else find_deployment d j)"
    using none by (auto simp: find_deployment_def d' find_append_cases split: option.splits)
qed

lemma tag_invariant_insert:
  assumes inv: "tag_invariant ((d, f), evs)"
    and ins: "insert_deployment d n = Inr d'"
    and tag: "(imageTag n \<noteq> None) = has_image (evs @ ev) (deploymentId n)"
    and oth: "\<And>j. j \<noteq> deploymentId n \<Longrightarrow> has_image (evs @ ev) j = has_image evs j"
  shows "tag_invariant ((d', f'), evs @ ev)"
proof (rule tag_invariantI)
  fix j
  show "case find_deployment d' j of None \<Rightarrow> \<not> has_image (evs @ ev) j
        | Some r \<Rightarrow> (imageTag r \<noteq> None) = has_image (evs @ ev) j"
  proof (cases "j = deploymentId n")
    case True
    then show ?thesis using find_deployment_insert(1) [OF ins, of j] tag by simp
  next
    case False
    then show ?thesis
      using find_deployment_insert(1) [OF ins, of j] oth [of j] tag_invariantD [OF inv, of j]
      by (simp split: option.splits)
  qed
qed

lemma tag_invariant_same_tags:
  assumes inv: "tag_invariant ((d, f), evs)"
    and same: "\<And>j. map_option imageTag (find_deployment d' j)
                   = map_option imageTag (find_deployment d j)"
  shows "tag_invariant ((d', f'), evs)"
proof (rule tag_invariantI)
  fix j
  show "case find_deployment d' j of None \<Rightarrow> \<not> has_image evs j
        | Some r \<Rightarrow> (imageTag r \<noteq> None) = has_image evs j"
    using same [of j] tag_invariantD [OF inv, of j]
    by (cases "find_deployment d' j"; cases "find_deployment d j") auto
qed

lemma tag_invariant_fresh:
  assumes "tag_invariant ((d, f), evs)" and "insert_deployment d n = Inr d'"
  shows "\<not> has_image evs (deploymentId n)"
  using tag_invariantD [OF assms(1), of "deploymentId n"] find_deployment_insert(2) [OF assms(2)]
  by simp

lemma has_image_Nil [simp]: "has_image (evs @ []) j = has_image evs j"
  by simp

lemma triggerDeploy_db:
  "snd (triggerDeploy uid now uuid token latestCommit pid d) = d \<or>
   (\<exists>n. insert_deployment d n = Inr (snd (triggerDeploy uid now uuid token latestCommit pid d))
        \<and> imageTag n = None)"
  by (auto simp: triggerDeploy_def Let_def new_deployment_def
      split: option.splits sum.splits if_splits prod.splits)

lemma rollback_db:
  "(\<exists>e. rollback uid now uuid i d = (Inl e, d)) \<or>
   (\<exists>n d'. rollback uid now uuid i d = (Inr n, d') \<and> insert_deployment d n = Inr d'
          \<and> imageTag n \<noteq> None)"
  by (auto simp: rollback_def nonempty_def Let_def new_deployment_def
      split: option.splits sum.splits if_splits)

lemma cancel_tags:
  "map_option imageTag (find_deployment (snd (cancel uid now i d)) j)
     = map_option imageTag (find_deployment d j)"
  by (auto simp: cancel_def cancelled_def find_deployment_update
      split: option.splits if_splits)


lemma POST_db:
  "snd (POST env req d) = d \<or>
   (\<exists>n. insert_deployment d n = Inr (snd (POST env req d)) \<and> imageTag n = None)"
proof (cases "snd (POST env req d) = d")
  case True
  then show ?thesis by simp
next
  case False
  from POST_changed [OF this] obtain p :: project and msg sha where
    "insert_deployment d
       (new_deployment (randomUUID env) (clock env) (project_id p) sha msg ''pending'' None)
     = Inr (snd (POST env req d))"
    by blast
  moreover have "imageTag (new_deployment (randomUUID env) (clock env) (project_id p) sha msg
      ''pending'' None) = None"
    by (simp add: new_deployment_def)
  ultimately show ?thesis by blast
qed

text \<open>The image tags of the table after a run of the orchestrator.\<close>

lemma process_tags:
  "map_option imageTag (find_deployment (db_after env i d f) j)
   = (if j = i then
        (case find_deployment d i of
           None \<Rightarrow> None
         | Some r \<Rightarrow>
             (case find_project d (projectId r) of
                None \<Rightarrow> Some (imageTag r)
              | Some p \<Rightarrow>
                  Some (if build_succeeds env r p f then Some (built_tag env r p)
                        else imageTag r)))
      else map_option imageTag (find_deployment d j))"
proof (cases "find_deployment d i")
  case None
  then show ?thesis by (simp add: db_after_def processDeployment_def)
next
  case fd: (Some r)
  show ?thesis
  proof (cases "find_project d (projectId r)")
    case None
    then show ?thesis using fd by (simp add: db_after_def processDeployment_def)
  next
    case fp: (Some p)
    show ?thesis using process_find [OF fd fp, of env f j] fd fp by simp
  qed
qed

lemma tag_invariant_process:
  assumes inv: "tag_invariant ((d, f), evs)"
    and st: "step (Process env i) (d, f) = (s', ev)"
  shows "tag_invariant (s', evs @ ev)"
proof -
  obtain d' f' where s': "s' = (d', f')" by (cases s') auto
  have d': "d' = db_after env i d f"
    using st s' by (auto simp: step_def db_after_def split: prod.splits)
  have tags: "map_option imageTag (find_deployment d' j)
     = (if j = i then
        (case find_deployment d i of
           None \<Rightarrow> None
         | Some r \<Rightarrow>
             (case find_project d (projectId r) of
                None \<Rightarrow> Some (imageTag r)
              | Some p \<Rightarrow>
                  Some (if build_succeeds env r p f then Some (built_tag env r p)
                        else imageTag r)))
      else map_option imageTag (find_deployment d j))" for j
    unfolding d' by (rule process_tags)
  have ev: "ev = (case find_deployment d i of
                 None \<Rightarrow> []
               | Some r \<Rightarrow>
                   (case find_project d (projectId r) of
                      None \<Rightarrow> []
                    | Some p \<Rightarrow> if build_succeeds env r p f then [BuildSucceeded i] else []))"
    using st by (auto simp: step_def)
  show ?thesis
    unfolding s'
  proof (rule tag_invariantI)
    fix j
    show "case find_deployment d' j of None \<Rightarrow> \<not> has_image (evs @ ev) j
          | Some r \<Rightarrow> (imageTag r \<noteq> None) = has_image (evs @ ev) j"
    proof (cases "j = i")
      case False
      then have "has_image (evs @ ev) j = has_image evs j"
        by (auto simp: ev has_image_def split: option.splits)
      then show ?thesis
        using tags [of j] False tag_invariantD [OF inv, of j]
        by (cases "find_deployment d' j"; cases "find_deployment d j") auto
    next
      case True
      show ?thesis
        using tags [of i] tag_invariantD [OF inv, of i] True
        by (cases "find_deployment d' i"; cases "find_deployment d i")
           (auto simp: ev has_image_def split: option.splits if_splits)
    qed
  qed
qed

lemma step_preserves:
  assumes inv: "tag_invariant (s, evs)" and st: "step a s = (s', ev)"
  shows "tag_invariant (s', evs @ ev)"
proof -
  obtain d f where s: "s = (d, f)" by (cases s) auto
  note inv' = inv [unfolded s]
  show ?thesis
  proof (cases a)
    case (Webhook env req)
    then have e: "s' = (snd (POST env req d), f)" "ev = []"
      using st s by (auto simp: step_def)
    from POST_db [of env req d] show ?thesis
    proof
      assume "snd (POST env req d) = d"
      then show ?thesis using inv' e by simp
    next
      assume "\<exists>n. insert_deployment d n = Inr (snd (POST env req d)) \<and> imageTag n = None"
      then obtain n where n: "insert_deployment d n = Inr (snd (POST env req d))"
        "imageTag n = None" by blast
      show ?thesis unfolding e
        using tag_invariant_insert [OF inv' n(1), of "[]" f] tag_invariant_fresh [OF inv' n(1)] n(2)
        by simp
    qed
  next
    case (Trigger uid now uuid token latestCommit pid)
    then have e: "s' = (snd (triggerDeploy uid now uuid token latestCommit pid d), f)" "ev = []"
      using st s by (auto simp: step_def)
    from triggerDeploy_db [of uid now uuid token latestCommit pid d] show ?thesis
    proof
      assume "snd (triggerDeploy uid now uuid token latestCommit pid d) = d"
      then show ?thesis using inv' e by simp
    next
      assume "\<exists>n. insert_deployment d n
                 = Inr (snd (triggerDeploy uid now uuid token latestCommit pid d)) \<and>
               imageTag n = None"
      then obtain n where n: "insert_deployment d n
                 = Inr (snd (triggerDeploy uid now uuid token latestCommit pid d))"
        "imageTag n = None" by blast
      show ?thesis unfolding e
        using tag_invariant_insert [OF inv' n(1), of "[]" f] tag_invariant_fresh [OF inv' n(1)] n(2)
        by simp
    qed
  next
    case (Rollback uid now uuid i)
    from rollback_db [of uid now uuid i d] show ?thesis
    proof
      assume "\<exists>e. rollback uid now uuid i d = (Inl e, d)"
      then have "s' = (d, f)" "ev = []" using st s Rollback by (auto simp: step_def)
      then show ?thesis using inv' by simp
    next
      assume "\<exists>n d'. rollback uid now uuid i d = (Inr n, d') \<and> insert_deployment d n = Inr d'
          \<and> imageTag n \<noteq> None"
      then obtain n d' where n: "rollback uid now uuid i d = (Inr n, d')"
        "insert_deployment d n = Inr d'" "imageTag n \<noteq> None" by blast
      then have e: "s' = (d', f)" "ev = [RollbackCreated (deploymentId n)]"
        using st s Rollback by (auto simp: step_def)
      show ?thesis unfolding e
        using n(3) by (intro tag_invariant_insert [OF inv' n(2)]) (auto simp: has_image_def)
    qed
  next
    case (Cancel uid now i)
    then have e: "s' = (snd (cancel uid now i d), f)" "ev = []"
      using st s by (auto simp: step_def)
    show ?thesis unfolding e
      using tag_invariant_same_tags [OF inv', of "snd (cancel uid now i d)" f] cancel_tags
      by simp
  next
    case (Process env i)
    then show ?thesis using tag_invariant_process [OF inv'] st s by simp
  qed
qed

lemma run_preserves: "tag_invariant c \<Longrightarrow> tag_invariant (run as c)"
proof (induction as arbitrary: c)
  case Nil
  then show ?case by simp
next
  case (Cons a as)
  obtain s evs where c: "c = (s, evs)" by (cases c) auto
  obtain s' ev where st: "step a s = (s', ev)" by (cases "step a s") auto
  have "tag_invariant (s', evs @ ev)"
    using step_preserves [OF Cons.prems [unfolded c] st] .
  then show ?case using Cons.IH c st by simp
qed

text \<open>
  C2, as amended.  Starting from an empty deployments table, after any sequence of
  webhook pushes, manual triggers, rollbacks, cancellations and orchestrator runs, a
  Deployment record has an image tag if and only if its build phase completed
  successfully in some run of the orchestrator or the record was created by a rollback
  (which gives it the image tag of the live record rolled back to).
\<close>

theorem imageTag_iff_built_or_rolled_back:
  assumes "deployments d0 = []"
    and "run as ((d0, f0), []) = ((d, f), evs)"
    and "find_deployment d j = Some r"
  shows "imageTag r \<noteq> None \<longleftrightarrow>
           BuildSucceeded j \<in> set evs \<or> RollbackCreated j \<in> set evs"
proof -
  have "tag_invariant ((d0, f0), [])"
    using assms(1) by (simp add: tag_invariant_def find_deployment_def has_image_def)
  then have "tag_invariant ((d, f), evs)"
    using run_preserves [of "((d0, f0), [])" as] assms(2) by simp
  from tag_invariantD [OF this, of j] assms(3) show ?thesis
    by (simp add: has_image_def)
qed

lemma trigger_on_empty:
  "triggerDeploy ''u1'' 7 ''d9'' (Inr (Some ''tok'')) (Inr (''abc1234def'', ''fix'')) ''p1''
     empty_db = (Inr pushed_deployment, pushed_db)"
  by (simp add: triggerDeploy_def empty_db_def pushed_db_def example_project_def nonempty_def
      insert_deployment_def new_deployment_def pushed_deployment_def find_project_def Let_def)

lemma pushed_finds:
  "find_deployment pushed_db ''d9'' = Some pushed_deployment"
  "find_project pushed_db (projectId pushed_deployment) = Some example_project"
  by (simp_all add: find_deployment_def find_project_def pushed_db_def pushed_deployment_def
      example_project_def)

lemma pushed_build_succeeds:
  "build_succeeds dns_fails_env pushed_deployment example_project {}"
  using ok_build_succeeds
  by (simp add: build_succeeds_def dns_fails_env_def nonempty_def)

lemma example_run_result:
  "run example_run ((empty_db, {}), [])
     = (snd (processDeployment dns_fails_env ''d9'' pushed_db {}), [BuildSucceeded ''d9''])"
  by (simp add: example_run_def step_def trigger_on_empty pushed_finds pushed_build_succeeds)

theorem imageTag_iff_built_or_rolled_back_witness:
  "deployments empty_db = []
   \<and> snd (run example_run ((empty_db, {}), [])) = [BuildSucceeded ''d9'']
   \<and> (\<exists>r. find_deployment (fst (fst (run example_run ((empty_db, {}), [])))) ''d9'' = Some r
          \<and> imageTag r \<noteq> None)"
proof -
  have e: "deployments empty_db = []" by (simp add: empty_db_def)
  obtain d f where df: "snd (processDeployment dns_fails_env ''d9'' pushed_db {}) = (d, f)"
    by (cases "snd (processDeployment dns_fails_env ''d9'' pushed_db {})") auto
  then have d: "d = db_after dns_fails_env ''d9'' pushed_db {}" by (simp add: db_after_def)
  have r: "run example_run ((empty_db, {}), []) = ((d, f), [BuildSucceeded ''d9''])"
    by (simp add: example_run_result df)
  obtain r where fr: "find_deployment d ''d9'' = Some r"
    using process_imageTag [OF pushed_finds, of dns_fails_env "{}"] d
    by (cases "find_deployment d ''d9''") auto
  have "imageTag r \<noteq> None"
    using imageTag_iff_built_or_rolled_back [OF e r fr] by simp
  then show ?thesis using e r fr by simp
qed

end
